theory Spec2Isabelle
  imports Main
begin

section \<open>Arithmetic on data structures (lib/data-arithmetic-other.c)\<close>

text \<open>
  The functions of \<^verbatim>\<open>lib/data-arithmetic-other.c\<close> work on heap-allocated
  \<^verbatim>\<open>gal_data_t\<close> structures through pointers, reuse or release their inputs
  according to a flag byte, and leave the process through \<^verbatim>\<open>error(EXIT_FAILURE, ...)\<close>.
  The embedding keeps all of this explicit: a store of structures indexed by address,
  results that carry the store, and one error value for every \<^verbatim>\<open>error\<close> call.
\<close>

subsection \<open>Type codes, operator codes, flags\<close>

text \<open>
  The codes are integer constants of \<^verbatim>\<open>gnuastro/data.h\<close>. Only the ones this file
  names are listed; every other integer value is \<open>GAL_DATA_TYPE_OTHER n\<close>,
  respectively \<open>GAL_DATA_OPERATOR_OTHER n\<close>.
\<close>

datatype gal_type =
    GAL_DATA_TYPE_BIT
  | GAL_DATA_TYPE_UCHAR
  | GAL_DATA_TYPE_CHAR
  | GAL_DATA_TYPE_LOGICAL
  | GAL_DATA_TYPE_USHORT
  | GAL_DATA_TYPE_SHORT
  | GAL_DATA_TYPE_UINT
  | GAL_DATA_TYPE_INT
  | GAL_DATA_TYPE_ULONG
  | GAL_DATA_TYPE_LONG
  | GAL_DATA_TYPE_LONGLONG
  | GAL_DATA_TYPE_FLOAT
  | GAL_DATA_TYPE_DOUBLE
  | GAL_DATA_TYPE_OTHER nat

datatype gal_operator =
    GAL_DATA_OPERATOR_TO_UCHAR
  | GAL_DATA_OPERATOR_TO_CHAR
  | GAL_DATA_OPERATOR_TO_USHORT
  | GAL_DATA_OPERATOR_TO_SHORT
  | GAL_DATA_OPERATOR_TO_UINT
  | GAL_DATA_OPERATOR_TO_INT
  | GAL_DATA_OPERATOR_TO_ULONG
  | GAL_DATA_OPERATOR_TO_LONG
  | GAL_DATA_OPERATOR_TO_LONGLONG
  | GAL_DATA_OPERATOR_TO_FLOAT
  | GAL_DATA_OPERATOR_TO_DOUBLE
  | GAL_DATA_OPERATOR_SQRT
  | GAL_DATA_OPERATOR_LOG
  | GAL_DATA_OPERATOR_LOG10
  | GAL_DATA_OPERATOR_POW
  | GAL_DATA_OPERATOR_OTHER nat

text \<open>
  The \<^verbatim>\<open>flags\<close> byte is only ever tested bit by bit
  (\<^verbatim>\<open>flags & GAL_DATA_ARITH_FREE\<close>), so it is the set of the bits that are on.
\<close>

datatype arith_flag =
    GAL_DATA_ARITH_INPLACE
  | GAL_DATA_ARITH_FREE
  | GAL_DATA_ARITH_NUMOK

text \<open>The C element types the macros are instantiated with.\<close>

datatype ctype =
    c_uchar | c_char | c_ushort | c_short | c_uint | c_int
  | c_ulong | c_long | c_LONGLONG | c_float | c_double

text \<open>\<^verbatim>\<open>sizeof\<close> on an LP64 platform (\<^verbatim>\<open>LONGLONG\<close> is CFITSIO's \<^verbatim>\<open>long long\<close>).\<close>

fun c_sizeof :: "ctype \<Rightarrow> nat" where
  "c_sizeof c_uchar = 1"
| "c_sizeof c_char = 1"
| "c_sizeof c_ushort = 2"
| "c_sizeof c_short = 2"
| "c_sizeof c_uint = 4"
| "c_sizeof c_int = 4"
| "c_sizeof c_ulong = 8"
| "c_sizeof c_long = 8"
| "c_sizeof c_LONGLONG = 8"
| "c_sizeof c_float = 4"
| "c_sizeof c_double = 8"

fun c_is_float :: "ctype \<Rightarrow> bool" where
  "c_is_float c_float = True"
| "c_is_float c_double = True"
| "c_is_float _ = False"

subsection \<open>Element values and the C platform\<close>

text \<open>
  Element values are kept abstract (type \<open>'v\<close>): what a conversion between two C types
  does to a value, when a value compares equal to zero, and the functions of
  \<^verbatim>\<open>math.h\<close> belong to the compiler and the C library, not to this file.
  They are the fields of a platform record that every operation takes.
\<close>

record 'v platform =
  convert :: "ctype \<Rightarrow> ctype \<Rightarrow> 'v \<Rightarrow> 'v"
  is_zero :: "ctype \<Rightarrow> 'v \<Rightarrow> bool"
  logical_val :: "bool \<Rightarrow> 'v"
  zero_bytes :: "'v"
  c_sqrt :: "'v \<Rightarrow> 'v"
  c_log :: "'v \<Rightarrow> 'v"
  c_log10 :: "'v \<Rightarrow> 'v"
  c_pow :: "'v \<Rightarrow> 'v \<Rightarrow> 'v"

text \<open>
  \<open>convert P a b x\<close> is the value \<open>x\<close> of C type \<open>a\<close> converted to C type \<open>b\<close>;
  \<open>is_zero P a x\<close> is \<^verbatim>\<open>x == 0\<close> at type \<open>a\<close>; \<open>logical_val P b\<close> is the
  \<^verbatim>\<open>unsigned char\<close> 1 or 0; \<open>zero_bytes P\<close> is an element whose bytes are all zero.
  A conversion between equal types does nothing, on every platform.
\<close>

definition c_convert :: "'v platform \<Rightarrow> ctype \<Rightarrow> ctype \<Rightarrow> 'v \<Rightarrow> 'v" where
  "c_convert P a b x = (if a = b then x else convert P a b x)"

subsection \<open>The data structure and the store\<close>

text \<open>
  \<^verbatim>\<open>gal_data_t\<close> of \<^verbatim>\<open>gnuastro/data.h\<close>, with the fields this file reads.
  \<open>array\<close> is the buffer, one cell per element; a cell that was never written
  (\<^verbatim>\<open>gal_data_alloc\<close> called with \<^verbatim>\<open>clear=0\<close>) is \<open>None\<close>. In C the field is a
  \<^verbatim>\<open>void *\<close>: this file and \<^verbatim>\<open>bin/fits/fits.c\<close> assign it to pointers to every
  element type without a cast. The field \<^verbatim>\<open>size\<close> is \<open>size_f\<close> here, \<^verbatim>\<open>wcs\<close> is an
  opaque handle.
\<close>

type_synonym addr = nat

record 'v gal_data_t =
  array :: "'v option list"
  type :: gal_type
  ndim :: nat
  dsize :: "nat list"
  size_f :: nat
  wcs :: "nat option"
  minmapsize :: nat

record 'v heap =
  objs :: "addr \<Rightarrow> 'v gal_data_t option"
  next_addr :: addr

text \<open>
  One constructor for each \<^verbatim>\<open>error(EXIT_FAILURE, ...)\<close> call of the file, named after
  the error kinds of the specification, and \<open>MemoryFault\<close> for what C leaves undefined:
  a read or write outside a buffer, the use or release of a structure that is not
  allocated. An error carries the store as it was when the process stopped.
\<close>

datatype error =
    InternalInvariant_operator gal_operator
  | InternalInvariant_type gal_type
  | UnsupportedKind
  | TypeMismatch gal_operator string gal_type
  | ShapeMismatch
  | CondTypeError gal_type
  | MemoryFault

type_synonym ('v, 'a) result = "(error \<times> 'v heap) + ('a \<times> 'v heap)"

type_synonym 'v effect = "(error \<times> 'v heap) + 'v heap"

subsection \<open>Helpers of gnuastro/data.h that are not part of this file\<close>

definition gal_data_alloc ::
  "'v platform \<Rightarrow> 'v heap \<Rightarrow> gal_type \<Rightarrow> nat \<Rightarrow> nat list \<Rightarrow> nat option \<Rightarrow> bool \<Rightarrow> nat
     \<Rightarrow> addr \<times> 'v heap" where
  \<comment> \<open>Modelled from the spec: \<^verbatim>\<open>gal_data_alloc\<close> is declared in gnuastro/data.h and
      defined outside this file. Section 4.1: a new Array Value of the given kind and shape,
      its buffer of \<open>product(shape)\<close> elements zero-filled or uninitialised. Running out
      of memory is not modelled: the store is unbounded.\<close>
  "gal_data_alloc P h t nd ds w clear mms =
     (next_addr h,
      h\<lparr>objs := (objs h)(next_addr h \<mapsto>
             \<lparr>array = replicate (prod_list ds) (if clear then Some (zero_bytes P) else None),
              type = t, ndim = nd, dsize = ds, size_f = prod_list ds,
              wcs = w, minmapsize = mms\<rparr>),
         next_addr := Suc (next_addr h)\<rparr>)"

definition gal_data_free :: "'v heap \<Rightarrow> addr \<Rightarrow> 'v effect" where
  \<comment> \<open>Modelled from the spec: \<^verbatim>\<open>gal_data_free\<close> is defined outside this file.
      Section 3: the input is released and must not be referenced again.\<close>
  "gal_data_free h p =
     (case objs h p of
        None \<Rightarrow> Inl (MemoryFault, h)
      | Some d \<Rightarrow> Inr (h\<lparr>objs := (objs h)(p := None)\<rparr>))"

definition gal_data_dsize_is_different :: "'v gal_data_t \<Rightarrow> 'v gal_data_t \<Rightarrow> bool" where
  \<comment> \<open>Modelled from the spec: \<^verbatim>\<open>gal_data_dsize_is_different\<close> is defined outside
      this file. Section 3: shape compatibility is an exact dimension match.\<close>
  "gal_data_dsize_is_different first second \<longleftrightarrow>
     ndim first \<noteq> ndim second \<or> dsize first \<noteq> dsize second"

definition gal_data_out_type :: "'v gal_data_t \<Rightarrow> 'v gal_data_t \<Rightarrow> gal_type" where
  \<comment> \<open>Modelled from the spec: \<^verbatim>\<open>gal_data_out_type\<close> is defined outside this file.
      Section 4.5: the wider of the two kinds, float64 dominates float32.\<close>
  "gal_data_out_type l r =
     (if type l = GAL_DATA_TYPE_DOUBLE \<or> type r = GAL_DATA_TYPE_DOUBLE
      then GAL_DATA_TYPE_DOUBLE else GAL_DATA_TYPE_FLOAT)"

text \<open>The C type of the elements of each kind, as the pointers of
  \<^verbatim>\<open>data_arithmetic_not\<close> read them.\<close>

fun gal_ctype :: "gal_type \<Rightarrow> ctype option" where
  "gal_ctype GAL_DATA_TYPE_UCHAR = Some c_uchar"
| "gal_ctype GAL_DATA_TYPE_CHAR = Some c_char"
| "gal_ctype GAL_DATA_TYPE_LOGICAL = Some c_char"
| "gal_ctype GAL_DATA_TYPE_USHORT = Some c_ushort"
| "gal_ctype GAL_DATA_TYPE_SHORT = Some c_short"
| "gal_ctype GAL_DATA_TYPE_UINT = Some c_uint"
| "gal_ctype GAL_DATA_TYPE_INT = Some c_int"
| "gal_ctype GAL_DATA_TYPE_ULONG = Some c_ulong"
| "gal_ctype GAL_DATA_TYPE_LONG = Some c_long"
| "gal_ctype GAL_DATA_TYPE_LONGLONG = Some c_LONGLONG"
| "gal_ctype GAL_DATA_TYPE_FLOAT = Some c_float"
| "gal_ctype GAL_DATA_TYPE_DOUBLE = Some c_double"
| "gal_ctype GAL_DATA_TYPE_BIT = None"
| "gal_ctype (GAL_DATA_TYPE_OTHER n) = None"

definition gal_data_copy_to_new_type ::
  "'v platform \<Rightarrow> 'v heap \<Rightarrow> addr \<Rightarrow> gal_type \<Rightarrow> ('v, addr) result" where
  \<comment> \<open>Modelled from the spec: \<^verbatim>\<open>gal_data_copy_to_new_type\<close> is defined outside this
      file. Section 4.2: a new Array Value of the target kind and of the input's shape, each
      element converted from the input's kind.\<close>
  "gal_data_copy_to_new_type P h p newtype =
     (case objs h p of
        None \<Rightarrow> Inl (MemoryFault, h)
      | Some d \<Rightarrow>
          (case (gal_ctype (type d), gal_ctype newtype) of
             (Some a, Some b) \<Rightarrow>
               (case gal_data_alloc P h newtype (ndim d) (dsize d) (wcs d) False (minmapsize d) of
                  (q, h1) \<Rightarrow>
                    (case objs h1 q of
                       None \<Rightarrow> Inl (MemoryFault, h1)
                     | Some od \<Rightarrow>
                         Inr (q, h1\<lparr>objs := (objs h1)(q \<mapsto>
                                od\<lparr>array := map (map_option (c_convert P a b))
                                                  (array d)\<rparr>)\<rparr>)))
           | (None, _) \<Rightarrow> Inl (InternalInvariant_type (type d), h)
           | (_, None) \<Rightarrow> Inl (InternalInvariant_type newtype, h)))"

subsection \<open>Reading and writing buffers\<close>

definition load :: "'v heap \<Rightarrow> addr \<Rightarrow> nat \<Rightarrow> (error \<times> 'v heap) + 'v option" where
  "load h p i =
     (case objs h p of
        None \<Rightarrow> Inl (MemoryFault, h)
      | Some d \<Rightarrow> if i < length (array d) then Inr (array d ! i) else Inl (MemoryFault, h))"

definition store :: "'v heap \<Rightarrow> addr \<Rightarrow> nat \<Rightarrow> 'v option \<Rightarrow> 'v effect" where
  "store h p i v =
     (case objs h p of
        None \<Rightarrow> Inl (MemoryFault, h)
      | Some d \<Rightarrow>
          if i < length (array d)
          then Inr (h\<lparr>objs := (objs h)(p \<mapsto> d\<lparr>array := (array d)[i := v]\<rparr>)\<rparr>)
          else Inl (MemoryFault, h))"

text \<open>
  Every element loop of the file has the shape
  \<^verbatim>\<open>do body while(++p < finish);\<close> with \<open>p\<close> a pointer to elements of C type \<open>t\<close>
  that starts at the beginning of a buffer. \<open>i\<close> counts the increments of \<open>p\<close>, so
  \<open>p\<close> is \<open>i * c_sizeof t\<close> bytes into the buffer, and \<open>fin\<close> is the distance of
  \<open>finish\<close> from the beginning of the buffer, in bytes.
\<close>

lemma c_sizeof_pos [simp]: "0 < c_sizeof t"
  by (cases t) simp_all

function do_while ::
  "ctype \<Rightarrow> nat \<Rightarrow> (nat \<Rightarrow> 'v heap \<Rightarrow> 'v effect) \<Rightarrow> nat \<Rightarrow> 'v heap \<Rightarrow> 'v effect" where
  "do_while t fin body i h =
     (case body i h of
        Inl e \<Rightarrow> Inl e
      | Inr h' \<Rightarrow>
          if Suc i * c_sizeof t < fin then do_while t fin body (Suc i) h' else Inr h')"
  by pat_completeness auto

termination
proof (relation "measure (\<lambda>(t, fin, body, i, h). fin - i * c_sizeof t)")
  show "wf (measure (\<lambda>(t, fin, body, i, h). fin - i * c_sizeof t))"
    by simp
next
  fix t :: ctype and fin :: nat and i :: nat
  fix body :: "nat \<Rightarrow> 'v heap \<Rightarrow> 'v effect" and h h' :: "'v heap"
  assume more: "Suc i * c_sizeof t < fin"
  have "0 < c_sizeof t"
    by (rule c_sizeof_pos)
  moreover have "Suc i * c_sizeof t = c_sizeof t + i * c_sizeof t"
    by simp
  ultimately have "fin - Suc i * c_sizeof t < fin - i * c_sizeof t"
    using more by linarith
  then show "((t, fin, body, Suc i, h'), (t, fin, body, i, h))
      \<in> measure (\<lambda>(t, fin, body, i, h). fin - i * c_sizeof t)"
    by simp
qed

declare do_while.simps [simp del]

subsection \<open>Changing the type\<close>

definition data_arithmetic_change_type ::
  "'v platform \<Rightarrow> 'v heap \<Rightarrow> addr \<Rightarrow> gal_operator \<Rightarrow> arith_flag set \<Rightarrow> ('v, addr) result" where
  "data_arithmetic_change_type P h data operator flags =
     (case (case operator of
              GAL_DATA_OPERATOR_TO_UCHAR \<Rightarrow> Some GAL_DATA_TYPE_UCHAR
            | GAL_DATA_OPERATOR_TO_CHAR \<Rightarrow> Some GAL_DATA_TYPE_UCHAR
            | GAL_DATA_OPERATOR_TO_USHORT \<Rightarrow> Some GAL_DATA_TYPE_USHORT
            | GAL_DATA_OPERATOR_TO_SHORT \<Rightarrow> Some GAL_DATA_TYPE_SHORT
            | GAL_DATA_OPERATOR_TO_UINT \<Rightarrow> Some GAL_DATA_TYPE_UINT
            | GAL_DATA_OPERATOR_TO_INT \<Rightarrow> Some GAL_DATA_TYPE_INT
            | GAL_DATA_OPERATOR_TO_ULONG \<Rightarrow> Some GAL_DATA_TYPE_ULONG
            | GAL_DATA_OPERATOR_TO_LONG \<Rightarrow> Some GAL_DATA_TYPE_LONG
            | GAL_DATA_OPERATOR_TO_LONGLONG \<Rightarrow> Some GAL_DATA_TYPE_LONGLONG
            | GAL_DATA_OPERATOR_TO_FLOAT \<Rightarrow> Some GAL_DATA_TYPE_FLOAT
            | GAL_DATA_OPERATOR_TO_DOUBLE \<Rightarrow> Some GAL_DATA_TYPE_DOUBLE
            | _ \<Rightarrow> None) of
        None \<Rightarrow> Inl (InternalInvariant_operator operator, h)
      | Some t \<Rightarrow>
          (case gal_data_copy_to_new_type P h data t of
             Inl e \<Rightarrow> Inl e
           | Inr (out, h1) \<Rightarrow>
               if GAL_DATA_ARITH_FREE \<in> flags
               then (case gal_data_free h1 data of
                       Inl e \<Rightarrow> Inl e
                     | Inr h2 \<Rightarrow> Inr (out, h2))
               else Inr (out, h1)))"

subsection \<open>Logical negation\<close>

text \<open>
  \<^verbatim>\<open>*o = rhs\<close> at element \<open>i\<close> of the buffer of \<open>out\<close>, where the right-hand side
  is read from the store.
\<close>

definition assign ::
  "(nat \<Rightarrow> 'v heap \<Rightarrow> (error \<times> 'v heap) + 'v option) \<Rightarrow> addr \<Rightarrow> nat \<Rightarrow> 'v heap \<Rightarrow> 'v effect" where
  "assign rhs out i h = (case rhs i h of Inl e \<Rightarrow> Inl e | Inr v \<Rightarrow> store h out i v)"

text \<open>
  \<^verbatim>\<open>TYPE_CASE_FOR_NOT(TYPE, IN, IN_FINISH)\<close>:
  \<^verbatim>\<open>do *o++ = !*IN; while(++IN<IN_FINISH);\<close>. \<open>IN\<close> points to elements of C type
  \<open>t\<close>. The finish pointers are all initialised with
  \<^verbatim>\<open>data->array + data->size\<close>, an addition on the \<^verbatim>\<open>void *\<close> field \<^verbatim>\<open>array\<close>,
  which GNU C counts in bytes: \<open>IN_FINISH\<close> is \<open>size\<close> bytes into the buffer, whatever
  the type of the pointer it is assigned to.
\<close>

definition TYPE_CASE_FOR_NOT ::
  "'v platform \<Rightarrow> ctype \<Rightarrow> nat \<Rightarrow> addr \<Rightarrow> addr \<Rightarrow> 'v heap \<Rightarrow> 'v effect" where
  "TYPE_CASE_FOR_NOT P t in_finish data out h =
     do_while t in_finish
       (assign (\<lambda>i h. case load h data i of
                         Inl e \<Rightarrow> Inl e
                       | Inr x \<Rightarrow> Inr (map_option (\<lambda>v. logical_val P (is_zero P t v)) x)) out)
       0 h"

definition data_arithmetic_not ::
  "'v platform \<Rightarrow> 'v heap \<Rightarrow> addr \<Rightarrow> arith_flag set \<Rightarrow> ('v, addr) result" where
  "data_arithmetic_not P h data flags =
     (case objs h data of
        None \<Rightarrow> Inl (MemoryFault, h)
      | Some d \<Rightarrow>
          (case gal_data_alloc P h GAL_DATA_TYPE_UCHAR (ndim d) (dsize d) (wcs d) False
                  (minmapsize d) of
             (out, h1) \<Rightarrow>
               (case (case type d of
                        GAL_DATA_TYPE_UCHAR \<Rightarrow> TYPE_CASE_FOR_NOT P c_uchar (size_f d) data out h1
                      | GAL_DATA_TYPE_CHAR \<Rightarrow> TYPE_CASE_FOR_NOT P c_char (size_f d) data out h1
                      | GAL_DATA_TYPE_LOGICAL \<Rightarrow> TYPE_CASE_FOR_NOT P c_char (size_f d) data out h1
                      | GAL_DATA_TYPE_USHORT \<Rightarrow> TYPE_CASE_FOR_NOT P c_ushort (size_f d) data out h1
                      | GAL_DATA_TYPE_SHORT \<Rightarrow> TYPE_CASE_FOR_NOT P c_short (size_f d) data out h1
                      | GAL_DATA_TYPE_UINT \<Rightarrow> TYPE_CASE_FOR_NOT P c_uint (size_f d) data out h1
                      | GAL_DATA_TYPE_INT \<Rightarrow> TYPE_CASE_FOR_NOT P c_int (size_f d) data out h1
                      | GAL_DATA_TYPE_ULONG \<Rightarrow> TYPE_CASE_FOR_NOT P c_ulong (size_f d) data out h1
                      | GAL_DATA_TYPE_LONG \<Rightarrow> TYPE_CASE_FOR_NOT P c_long (size_f d) data out h1
                      | GAL_DATA_TYPE_LONGLONG \<Rightarrow>
                          TYPE_CASE_FOR_NOT P c_LONGLONG (size_f d) data out h1
                      | GAL_DATA_TYPE_FLOAT \<Rightarrow> TYPE_CASE_FOR_NOT P c_float (size_f d) data out h1
                      | GAL_DATA_TYPE_DOUBLE \<Rightarrow> TYPE_CASE_FOR_NOT P c_double (size_f d) data out h1
                      | GAL_DATA_TYPE_BIT \<Rightarrow> Inl (UnsupportedKind, h1)
                      | GAL_DATA_TYPE_OTHER n \<Rightarrow> Inl (InternalInvariant_type (type d), h1)) of
                  Inl e \<Rightarrow> Inl e
                | Inr h2 \<Rightarrow>
                    if GAL_DATA_ARITH_FREE \<in> flags
                    then (case gal_data_free h2 data of
                            Inl e \<Rightarrow> Inl e
                          | Inr h3 \<Rightarrow> Inr (out, h3))
                    else Inr (out, h2))))"

subsection \<open>Checking for floating-point operands\<close>

definition check_float_input :: "'v heap \<Rightarrow> addr \<Rightarrow> gal_operator \<Rightarrow> string \<Rightarrow> 'v effect" where
  "check_float_input h inp operator numstr =
     (case objs h inp of
        None \<Rightarrow> Inl (MemoryFault, h)
      | Some d \<Rightarrow>
          (case type d of
             GAL_DATA_TYPE_FLOAT \<Rightarrow> Inr h
           | GAL_DATA_TYPE_DOUBLE \<Rightarrow> Inr h
           | _ \<Rightarrow> Inl (TypeMismatch operator numstr (type d), h)))"

text \<open>
  The C type of the elements of a floating-point kind: the cases of the switches on
  \<^verbatim>\<open>in->type\<close>, \<^verbatim>\<open>l->type\<close>, \<^verbatim>\<open>r->type\<close> and \<^verbatim>\<open>o->type\<close> in the macros of
  the unary and binary functions. Every other kind is their \<^verbatim>\<open>default\<close> case.
\<close>

definition float_ctype :: "gal_type \<Rightarrow> ctype option" where
  "float_ctype t =
     (case t of
        GAL_DATA_TYPE_FLOAT \<Rightarrow> Some c_float
      | GAL_DATA_TYPE_DOUBLE \<Rightarrow> Some c_double
      | _ \<Rightarrow> None)"

subsection \<open>Unary functions on floating point\<close>

text \<open>
  \<^verbatim>\<open>OP(*ia)\<close> assigned to \<^verbatim>\<open>*oa\<close>, with \<open>ia\<close> and \<open>oa\<close> pointers to the C type
  \<open>IT\<close>: \<open>OP\<close> is a \<^verbatim>\<open>double\<close> function of \<^verbatim>\<open>math.h\<close>, so its argument is
  converted to \<^verbatim>\<open>double\<close> and its result to \<open>IT\<close>.
\<close>

definition unifunc_elem :: "'v platform \<Rightarrow> ctype \<Rightarrow> ('v \<Rightarrow> 'v) \<Rightarrow> 'v \<Rightarrow> 'v" where
  "unifunc_elem P IT OP v = c_convert P c_double IT (OP (c_convert P IT c_double v))"

text \<open>
  \<^verbatim>\<open>UNIFUNC_RUN_FUNCTION(IT, OP)\<close>:
  \<^verbatim>\<open>IT *ia=in->array, *oa=o->array, *of=oa + o->size; do *oa++ = OP(*ia++); while(oa<of);\<close>.
  Here the finish pointer is computed on the typed pointer \<open>oa\<close>: it is \<open>size\<close> elements
  into the buffer.
\<close>

definition UNIFUNC_RUN_FUNCTION ::
  "'v platform \<Rightarrow> ctype \<Rightarrow> ('v \<Rightarrow> 'v) \<Rightarrow> addr \<Rightarrow> addr \<Rightarrow> 'v heap \<Rightarrow> 'v effect" where
  "UNIFUNC_RUN_FUNCTION P IT OP inp out h =
     (case objs h out of
        None \<Rightarrow> Inl (MemoryFault, h)
      | Some od \<Rightarrow>
          do_while IT (size_f od * c_sizeof IT)
            (assign (\<lambda>i h. case load h inp i of
                              Inl e \<Rightarrow> Inl e
                            | Inr x \<Rightarrow> Inr (map_option (unifunc_elem P IT OP) x))
               out)
            0 h)"

definition UNIFUNC_F_OPERATOR_DONE ::
  "'v platform \<Rightarrow> ('v \<Rightarrow> 'v) \<Rightarrow> addr \<Rightarrow> addr \<Rightarrow> 'v heap \<Rightarrow> 'v effect" where
  "UNIFUNC_F_OPERATOR_DONE P OP inp out h =
     (case objs h inp of
        None \<Rightarrow> Inl (MemoryFault, h)
      | Some d \<Rightarrow>
          (case float_ctype (type d) of
             None \<Rightarrow> Inl (InternalInvariant_type (type d), h)
           | Some IT \<Rightarrow> UNIFUNC_RUN_FUNCTION P IT OP inp out h))"

text \<open>The cases of the switch on the operator: the function of \<^verbatim>\<open>math.h\<close> to run.\<close>

definition unifunc_operator :: "'v platform \<Rightarrow> gal_operator \<Rightarrow> ('v \<Rightarrow> 'v) option" where
  "unifunc_operator P operator =
     (case operator of
        GAL_DATA_OPERATOR_SQRT \<Rightarrow> Some (c_sqrt P)
      | GAL_DATA_OPERATOR_LOG \<Rightarrow> Some (c_log P)
      | GAL_DATA_OPERATOR_LOG10 \<Rightarrow> Some (c_log10 P)
      | _ \<Rightarrow> None)"

definition data_arithmetic_unary_function_f ::
  "'v platform \<Rightarrow> 'v heap \<Rightarrow> gal_operator \<Rightarrow> arith_flag set \<Rightarrow> addr \<Rightarrow> ('v, addr) result" where
  "data_arithmetic_unary_function_f P h operator flags inp =
     (case check_float_input h inp operator ''first'' of
        Inl e \<Rightarrow> Inl e
      | Inr h0 \<Rightarrow>
          (case objs h0 inp of
             None \<Rightarrow> Inl (MemoryFault, h0)
           | Some d \<Rightarrow>
               (case (if GAL_DATA_ARITH_INPLACE \<in> flags then (inp, h0)
                      else gal_data_alloc P h0 (type d) (ndim d) (dsize d) (wcs d) False
                             (minmapsize d)) of
                  (out, h1) \<Rightarrow>
                    (case (case unifunc_operator P operator of
                             None \<Rightarrow> Inl (InternalInvariant_operator operator, h1)
                           | Some OP \<Rightarrow> UNIFUNC_F_OPERATOR_DONE P OP inp out h1) of
                       Inl e \<Rightarrow> Inl e
                     | Inr h2 \<Rightarrow>
                         if GAL_DATA_ARITH_FREE \<in> flags \<and> out \<noteq> inp
                         then (case gal_data_free h2 inp of
                                 Inl e \<Rightarrow> Inl e
                               | Inr h3 \<Rightarrow> Inr (out, h3))
                         else Inr (out, h2)))))"

subsection \<open>Binary functions on floating point\<close>

text \<open>
  \<^verbatim>\<open>OP(*la, *ra)\<close> assigned to \<^verbatim>\<open>*oa\<close>, with \<open>la\<close>, \<open>ra\<close> and \<open>oa\<close> pointers to
  the C types \<open>LT\<close>, \<open>RT\<close> and \<open>OT\<close>: \<open>OP\<close> is a \<^verbatim>\<open>double\<close> function of
  \<^verbatim>\<open>math.h\<close>, so both arguments are converted to \<^verbatim>\<open>double\<close> and the result to \<open>OT\<close>.
\<close>

definition binfunc_elem ::
  "'v platform \<Rightarrow> ctype \<Rightarrow> ctype \<Rightarrow> ctype \<Rightarrow> ('v \<Rightarrow> 'v \<Rightarrow> 'v) \<Rightarrow> 'v \<Rightarrow> 'v \<Rightarrow> 'v" where
  "binfunc_elem P OT RT LT OP a b =
     c_convert P c_double OT (OP (c_convert P LT c_double a) (c_convert P RT c_double b))"

text \<open>
  The right-hand side read from the store: element \<open>li i\<close> of \<open>l\<close> and element \<open>ri i\<close>
  of \<open>r\<close>. A cell that was never written gives a result that counts as never written.
\<close>

definition binfunc_rhs ::
  "('v \<Rightarrow> 'v \<Rightarrow> 'v) \<Rightarrow> addr \<Rightarrow> (nat \<Rightarrow> nat) \<Rightarrow> addr \<Rightarrow> (nat \<Rightarrow> nat) \<Rightarrow> nat \<Rightarrow> 'v heap
     \<Rightarrow> (error \<times> 'v heap) + 'v option" where
  "binfunc_rhs f l li r ri i h =
     (case load h l (li i) of
        Inl e \<Rightarrow> Inl e
      | Inr x \<Rightarrow>
          (case load h r (ri i) of
             Inl e \<Rightarrow> Inl e
           | Inr y \<Rightarrow> Inr (case x of None \<Rightarrow> None | Some a \<Rightarrow> map_option (f a) y)))"

text \<open>
  \<^verbatim>\<open>BINFUNC_RUN_FUNCTION(OT, RT, LT, OP)\<close>. The finish pointer is computed on the typed
  pointer \<open>oa\<close> (\<^verbatim>\<open>of=oa + o->size\<close>). The three loops differ in which of the two
  operand pointers advance.
\<close>

definition BINFUNC_RUN_FUNCTION ::
  "'v platform \<Rightarrow> ctype \<Rightarrow> ctype \<Rightarrow> ctype \<Rightarrow> ('v \<Rightarrow> 'v \<Rightarrow> 'v) \<Rightarrow> addr \<Rightarrow> addr \<Rightarrow> addr \<Rightarrow> 'v heap
     \<Rightarrow> 'v effect" where
  "BINFUNC_RUN_FUNCTION P OT RT LT OP l r out h =
     (case (objs h l, objs h r, objs h out) of
        (Some ld, Some rd, Some od) \<Rightarrow>
          (let f = binfunc_elem P OT RT LT OP;
               fin = size_f od * c_sizeof OT
           in if size_f ld = size_f rd
              then do_while OT fin (assign (binfunc_rhs f l (\<lambda>i. i) r (\<lambda>i. i)) out) 0 h
              else if size_f ld = 1
              then do_while OT fin (assign (binfunc_rhs f l (\<lambda>i. 0) r (\<lambda>i. i)) out) 0 h
              else do_while OT fin (assign (binfunc_rhs f l (\<lambda>i. i) r (\<lambda>i. 0)) out) 0 h)
      | _ \<Rightarrow> Inl (MemoryFault, h))"

text \<open>The three nested switches on \<^verbatim>\<open>l->type\<close>, \<^verbatim>\<open>r->type\<close> and \<^verbatim>\<open>o->type\<close>.\<close>

definition BINFUNC_F_OPERATOR_SET ::
  "'v platform \<Rightarrow> ('v \<Rightarrow> 'v \<Rightarrow> 'v) \<Rightarrow> addr \<Rightarrow> addr \<Rightarrow> addr \<Rightarrow> 'v heap \<Rightarrow> 'v effect" where
  "BINFUNC_F_OPERATOR_SET P OP l r out h =
     (case (objs h l, objs h r, objs h out) of
        (Some ld, Some rd, Some od) \<Rightarrow>
          (case float_ctype (type ld) of
             None \<Rightarrow> Inl (InternalInvariant_type (type ld), h)
           | Some LT \<Rightarrow>
               (case float_ctype (type rd) of
                  None \<Rightarrow> Inl (InternalInvariant_type (type rd), h)
                | Some RT \<Rightarrow>
                    (case float_ctype (type od) of
                       None \<Rightarrow> Inl (InternalInvariant_type (type od), h)
                     | Some OT \<Rightarrow> BINFUNC_RUN_FUNCTION P OT RT LT OP l r out h)))
      | _ \<Rightarrow> Inl (MemoryFault, h))"

text \<open>
  The output of \<^verbatim>\<open>data_arithmetic_binary_function_f\<close>: \<open>o\<close> starts as \<^verbatim>\<open>NULL\<close>, is
  set to one of the inputs when in-place output is wanted and that input has the type and
  the size of the output, and is allocated when it is still \<^verbatim>\<open>NULL\<close> after that.
\<close>

definition binary_output ::
  "'v platform \<Rightarrow> 'v heap \<Rightarrow> arith_flag set \<Rightarrow> addr \<Rightarrow> 'v gal_data_t \<Rightarrow> addr \<Rightarrow> 'v gal_data_t
     \<Rightarrow> addr \<times> 'v heap" where
  "binary_output P h flags l ld r rd =
     (let final_otype = gal_data_out_type ld rd;
          minmapsize' = (if minmapsize ld < minmapsize rd then minmapsize ld else minmapsize rd);
          out_size = (if size_f ld > size_f rd then size_f ld else size_f rd)
      in if GAL_DATA_ARITH_INPLACE \<in> flags \<and> type ld = final_otype \<and> out_size = size_f ld
         then (l, h)
         else if GAL_DATA_ARITH_INPLACE \<in> flags \<and> type rd = final_otype \<and> out_size = size_f rd
         then (r, h)
         else gal_data_alloc P h final_otype
                (if size_f ld > 1 then ndim ld else ndim rd)
                (if size_f ld > 1 then dsize ld else dsize rd)
                (if size_f ld > 1 then wcs ld else wcs rd) False minmapsize')"

text \<open>The clean up at the end of \<^verbatim>\<open>data_arithmetic_binary_function_f\<close>.\<close>

definition binary_clean_up ::
  "arith_flag set \<Rightarrow> addr \<Rightarrow> addr \<Rightarrow> addr \<Rightarrow> 'v heap \<Rightarrow> ('v, addr) result" where
  "binary_clean_up flags l r out h =
     (if GAL_DATA_ARITH_FREE \<in> flags
      then (if out = l
            then (case gal_data_free h r of
                    Inl e \<Rightarrow> Inl e
                  | Inr h1 \<Rightarrow> Inr (out, h1))
            else if out = r
            then (case gal_data_free h l of
                    Inl e \<Rightarrow> Inl e
                  | Inr h1 \<Rightarrow> Inr (out, h1))
            else (case gal_data_free h l of
                    Inl e \<Rightarrow> Inl e
                  | Inr h1 \<Rightarrow>
                      (case gal_data_free h1 r of
                         Inl e \<Rightarrow> Inl e
                       | Inr h2 \<Rightarrow> Inr (out, h2))))
      else Inr (out, h))"

definition data_arithmetic_binary_function_f ::
  "'v platform \<Rightarrow> 'v heap \<Rightarrow> gal_operator \<Rightarrow> arith_flag set \<Rightarrow> addr \<Rightarrow> addr \<Rightarrow> ('v, addr) result" where
  "data_arithmetic_binary_function_f P h operator flags l r =
     (case (objs h l, objs h r) of
        (Some ld, Some rd) \<Rightarrow>
          if \<not> (GAL_DATA_ARITH_NUMOK \<in> flags \<and> (size_f ld = 1 \<or> size_f rd = 1))
             \<and> gal_data_dsize_is_different ld rd
          then Inl (ShapeMismatch, h)
          else
            (case check_float_input h l operator ''first'' of
               Inl e \<Rightarrow> Inl e
             | Inr _ \<Rightarrow>
                 (case check_float_input h r operator ''second'' of
                    Inl e \<Rightarrow> Inl e
                  | Inr _ \<Rightarrow>
                      (case binary_output P h flags l ld r rd of
                         (out, h1) \<Rightarrow>
                           (case (case operator of
                                    GAL_DATA_OPERATOR_POW \<Rightarrow>
                                      BINFUNC_F_OPERATOR_SET P (c_pow P) l r out h1
                                  | _ \<Rightarrow> Inl (InternalInvariant_operator operator, h1)) of
                              Inl e \<Rightarrow> Inl e
                            | Inr h2 \<Rightarrow> binary_clean_up flags l r out h2))))
      | _ \<Rightarrow> Inl (MemoryFault, h))"

subsection \<open>Where\<close>

text \<open>
  \<^verbatim>\<open>*o = *c++ ? *it : *o\<close> with \<open>it\<close> of C type \<open>ITT\<close> and \<open>o\<close> of C type \<open>OT\<close>.
  Only the selected operand is read. The conditional expression has the type the usual
  arithmetic conversions give the two operands, and its value is converted to \<open>OT\<close> by
  the assignment: the selected \<^verbatim>\<open>*it\<close> arrives in \<open>OT\<close> as by a direct conversion,
  and the kept \<^verbatim>\<open>*o\<close> goes through \<open>ITT\<close> and back when \<open>ITT\<close> is a floating-point
  type and \<open>OT\<close> an integer type (between two integer types, and from \<^verbatim>\<open>float\<close> to
  \<^verbatim>\<open>double\<close> and back, the round trip changes nothing).
\<close>

definition where_keep :: "'v platform \<Rightarrow> ctype \<Rightarrow> ctype \<Rightarrow> 'v \<Rightarrow> 'v" where
  "where_keep P ITT OT v =
     (if c_is_float ITT \<and> \<not> c_is_float OT
      then c_convert P ITT OT (c_convert P OT ITT v) else v)"

definition where_rhs ::
  "'v platform \<Rightarrow> ctype \<Rightarrow> ctype \<Rightarrow> addr \<Rightarrow> addr \<Rightarrow> addr \<Rightarrow> (nat \<Rightarrow> nat) \<Rightarrow> nat \<Rightarrow> 'v heap
     \<Rightarrow> (error \<times> 'v heap) + 'v option" where
  "where_rhs P ITT OT out cond iftrue iti i h =
     (case load h cond i of
        Inl e \<Rightarrow> Inl e
      | Inr None \<Rightarrow> Inr None
      | Inr (Some c) \<Rightarrow>
          if \<not> is_zero P c_uchar c
          then (case load h iftrue (iti i) of
                  Inl e \<Rightarrow> Inl e
                | Inr x \<Rightarrow> Inr (map_option (c_convert P ITT OT) x))
          else (case load h out i of
                  Inl e \<Rightarrow> Inl e
                | Inr x \<Rightarrow> Inr (map_option (where_keep P ITT OT) x)))"

text \<open>
  \<^verbatim>\<open>DO_WHERE_OPERATION(ITT, OT)\<close>. The finish pointer is
  \<^verbatim>\<open>of=out->array+out->size\<close>, an addition on the \<^verbatim>\<open>void *\<close> field: \<open>of\<close> is
  \<open>size\<close> bytes into the buffer of \<open>out\<close>.
\<close>

definition DO_WHERE_OPERATION ::
  "'v platform \<Rightarrow> ctype \<Rightarrow> ctype \<Rightarrow> addr \<Rightarrow> addr \<Rightarrow> addr \<Rightarrow> 'v heap \<Rightarrow> 'v effect" where
  "DO_WHERE_OPERATION P ITT OT out cond iftrue h =
     (case (objs h iftrue, objs h out) of
        (Some itd, Some od) \<Rightarrow>
          if size_f itd = 1
          then do_while OT (size_f od)
                 (assign (where_rhs P ITT OT out cond iftrue (\<lambda>i. 0)) out) 0 h
          else do_while OT (size_f od)
                 (assign (where_rhs P ITT OT out cond iftrue (\<lambda>i. i)) out) 0 h
      | _ \<Rightarrow> Inl (MemoryFault, h))"

text \<open>The cases of the switches on \<^verbatim>\<open>out->type\<close> and on \<^verbatim>\<open>iftrue->type\<close>.\<close>

definition where_ctype :: "gal_type \<Rightarrow> ctype option" where
  "where_ctype t =
     (case t of
        GAL_DATA_TYPE_UCHAR \<Rightarrow> Some c_uchar
      | GAL_DATA_TYPE_CHAR \<Rightarrow> Some c_char
      | GAL_DATA_TYPE_USHORT \<Rightarrow> Some c_ushort
      | GAL_DATA_TYPE_SHORT \<Rightarrow> Some c_short
      | GAL_DATA_TYPE_UINT \<Rightarrow> Some c_uint
      | GAL_DATA_TYPE_INT \<Rightarrow> Some c_int
      | GAL_DATA_TYPE_ULONG \<Rightarrow> Some c_ulong
      | GAL_DATA_TYPE_LONG \<Rightarrow> Some c_long
      | GAL_DATA_TYPE_LONGLONG \<Rightarrow> Some c_LONGLONG
      | GAL_DATA_TYPE_FLOAT \<Rightarrow> Some c_float
      | GAL_DATA_TYPE_DOUBLE \<Rightarrow> Some c_double
      | _ \<Rightarrow> None)"

definition WHERE_OUT_SET ::
  "'v platform \<Rightarrow> ctype \<Rightarrow> addr \<Rightarrow> addr \<Rightarrow> addr \<Rightarrow> 'v heap \<Rightarrow> 'v effect" where
  "WHERE_OUT_SET P OT out cond iftrue h =
     (case objs h iftrue of
        None \<Rightarrow> Inl (MemoryFault, h)
      | Some itd \<Rightarrow>
          (case where_ctype (type itd) of
             None \<Rightarrow> Inl (InternalInvariant_type (type itd), h)
           | Some ITT \<Rightarrow> DO_WHERE_OPERATION P ITT OT out cond iftrue h))"

definition data_arithmetic_where ::
  "'v platform \<Rightarrow> 'v heap \<Rightarrow> gal_operator \<Rightarrow> arith_flag set \<Rightarrow> addr \<Rightarrow> addr \<Rightarrow> addr
     \<Rightarrow> 'v effect" where
  "data_arithmetic_where P h operator flags out cond iftrue =
     (case objs h cond of
        None \<Rightarrow> Inl (MemoryFault, h)
      | Some cd \<Rightarrow>
          if type cd \<noteq> GAL_DATA_TYPE_UCHAR then Inl (CondTypeError (type cd), h)
          else
            (case objs h out of
               None \<Rightarrow> Inl (MemoryFault, h)
             | Some od \<Rightarrow>
                 if gal_data_dsize_is_different od cd then Inl (ShapeMismatch, h)
                 else
                   (case (case where_ctype (type od) of
                            None \<Rightarrow> Inl (InternalInvariant_type (type od), h)
                          | Some OT \<Rightarrow> WHERE_OUT_SET P OT out cond iftrue h) of
                      Inl e \<Rightarrow> Inl e
                    | Inr h1 \<Rightarrow>
                        if GAL_DATA_ARITH_FREE \<in> flags
                        then (case gal_data_free h1 cond of
                                Inl e \<Rightarrow> Inl e
                              | Inr h2 \<Rightarrow> gal_data_free h2 iftrue)
                        else Inr h1)))"

subsection \<open>A concrete platform and concrete stores\<close>

text \<open>
  To run the definitions on examples: a platform whose element values are integers.
  A conversion to an integer type wraps to the width of the type (two's complement for
  the signed ones), a conversion to a floating-point type keeps the integer (exact for
  the small values of the examples), and \<^verbatim>\<open>pow\<close> is the integer power. The square
  root and the logarithms have no counterpart on the integers: the identity stands in
  their place, and no statement below depends on what they compute.
\<close>

fun c_signed :: "ctype \<Rightarrow> bool" where
  "c_signed c_char = True"
| "c_signed c_short = True"
| "c_signed c_int = True"
| "c_signed c_long = True"
| "c_signed c_LONGLONG = True"
| "c_signed _ = False"

definition int_convert :: "ctype \<Rightarrow> ctype \<Rightarrow> int \<Rightarrow> int" where
  "int_convert a b x =
     (if c_is_float b then x
      else if c_signed b
      then (x + 2 ^ (8 * c_sizeof b - 1)) mod 2 ^ (8 * c_sizeof b) - 2 ^ (8 * c_sizeof b - 1)
      else x mod 2 ^ (8 * c_sizeof b))"

definition int_platform :: "int platform" where
  "int_platform =
     \<lparr>convert = int_convert,
      is_zero = (\<lambda>t x. x = 0),
      logical_val = (\<lambda>b. if b then 1 else 0),
      zero_bytes = 0,
      c_sqrt = (\<lambda>x. x),
      c_log = (\<lambda>x. x),
      c_log10 = (\<lambda>x. x),
      c_pow = (\<lambda>x y. x ^ nat y)\<rparr>"

definition mk_data :: "gal_type \<Rightarrow> nat list \<Rightarrow> 'v list \<Rightarrow> 'v gal_data_t" where
  "mk_data t ds xs =
     \<lparr>array = map Some xs, type = t, ndim = length ds, dsize = ds,
      size_f = prod_list ds, wcs = None, minmapsize = 0\<rparr>"

definition mk_heap :: "'v gal_data_t list \<Rightarrow> 'v heap" where
  "mk_heap ds =
     \<lparr>objs = (\<lambda>p. if p < length ds then Some (ds ! p) else None),
      next_addr = length ds\<rparr>"

text \<open>Stores with two floating-point operands, named after the shapes of the operands.\<close>

definition heap_1_5 :: "int heap" where
  "heap_1_5 = mk_heap [mk_data GAL_DATA_TYPE_FLOAT [1] [2],
                       mk_data GAL_DATA_TYPE_FLOAT [5] [1, 2, 3, 4, 5]]"

definition heap_2_2 :: "int heap" where
  "heap_2_2 = mk_heap [mk_data GAL_DATA_TYPE_FLOAT [2] [2, 3],
                       mk_data GAL_DATA_TYPE_FLOAT [2] [3, 2]]"

definition heap_5_1 :: "int heap" where
  "heap_5_1 = mk_heap [mk_data GAL_DATA_TYPE_FLOAT [5] [1, 2, 3, 4, 5],
                       mk_data GAL_DATA_TYPE_DOUBLE [1] [2]]"

definition heap_1_11 :: "int heap" where
  "heap_1_11 = mk_heap [mk_data GAL_DATA_TYPE_FLOAT [1] [2],
                        mk_data GAL_DATA_TYPE_DOUBLE [1, 1] [3]]"

definition heap_3_5 :: "int heap" where
  "heap_3_5 = mk_heap [mk_data GAL_DATA_TYPE_FLOAT [3] [1, 2, 3],
                       mk_data GAL_DATA_TYPE_FLOAT [5] [1, 2, 3, 4, 5]]"

definition heap_23_32 :: "int heap" where
  "heap_23_32 = mk_heap [mk_data GAL_DATA_TYPE_FLOAT [2, 3] [1, 2, 3, 4, 5, 6],
                         mk_data GAL_DATA_TYPE_FLOAT [3, 2] [1, 2, 3, 4, 5, 6]]"

subsection \<open>Well-formed structures and stores\<close>

text \<open>
  The invariants of \<^verbatim>\<open>gal_data_t\<close> the element loops rely on: \<^verbatim>\<open>ndim\<close> is the
  number of entries of \<^verbatim>\<open>dsize\<close>, \<^verbatim>\<open>size\<close> is their product and the number of
  elements of the buffer, and there is at least one element (every loop is a
  \<^verbatim>\<open>do ... while\<close>, which touches the first element before it tests anything). A store
  is well formed when no structure lives at or beyond the next address to be handed out.
\<close>

definition wf_data :: "'v gal_data_t \<Rightarrow> bool" where
  "wf_data d \<longleftrightarrow>
     ndim d = length (dsize d) \<and> size_f d = prod_list (dsize d)
     \<and> length (array d) = size_f d \<and> 0 < size_f d"

definition wf_heap :: "'v heap \<Rightarrow> bool" where
  "wf_heap h \<longleftrightarrow> (\<forall>p. next_addr h \<le> p \<longrightarrow> objs h p = None)"

text \<open>The store \<open>h\<close> with the buffer of the structure at \<open>p\<close> replaced by \<open>xs\<close>.\<close>

definition set_array :: "'v heap \<Rightarrow> addr \<Rightarrow> 'v option list \<Rightarrow> 'v heap" where
  "set_array h p xs =
     (case objs h p of
        None \<Rightarrow> h
      | Some d \<Rightarrow> h\<lparr>objs := (objs h)(p \<mapsto> d\<lparr>array := xs\<rparr>)\<rparr>)"

text \<open>The number of rounds of a loop over elements of \<open>w\<close> bytes whose finish pointer is
  \<open>n\<close> bytes into the buffer.\<close>

definition rounds :: "nat \<Rightarrow> nat \<Rightarrow> nat" where
  "rounds w n = max 1 ((n + w - 1) div w)"

text \<open>Element \<open>i\<close> of a buffer, or its only element when it has just one.\<close>

definition broadcast :: "'a list \<Rightarrow> nat \<Rightarrow> 'a" where
  "broadcast xs i = (if length xs = 1 then xs ! 0 else xs ! i)"

text \<open>
  The buffer a binary function has to produce from the buffers \<open>xs\<close> and \<open>ys\<close> of its
  operands: \<open>n\<close> elements, element \<open>i\<close> computed by \<open>f\<close> from the elements \<open>i\<close> of
  the operands, a single element being repeated.
\<close>

definition binfunc_array ::
  "('v \<Rightarrow> 'v \<Rightarrow> 'v) \<Rightarrow> 'v option list \<Rightarrow> 'v option list \<Rightarrow> nat \<Rightarrow> 'v option list" where
  "binfunc_array f xs ys n =
     map (\<lambda>i. case broadcast xs i of
                 None \<Rightarrow> None
               | Some a \<Rightarrow> map_option (f a) (broadcast ys i)) [0..<n]"

subsection \<open>The element loops\<close>

lemma do_while_rule:
  assumes step: "\<And>i h. i < n \<Longrightarrow> I i h \<Longrightarrow> \<exists>h'. body i h = Inr h' \<and> I (Suc i) h'"
    and cond: "\<And>i. i < n \<Longrightarrow> (Suc i * c_sizeof t < fin) = (Suc i < n)"
    and init: "I i h" "i < n"
  shows "\<exists>h'. do_while t fin body i h = Inr h' \<and> I n h'"
  using init
proof (induction "n - i" arbitrary: i h)
  case 0
  then show ?case by simp
next
  case (Suc k)
  from step [OF Suc.prems(2) Suc.prems(1)]
  obtain h1 where h1: "body i h = Inr h1" "I (Suc i) h1"
    by blast
  show ?case
  proof (cases "Suc i < n")
    case True
    have "k = n - Suc i"
      using Suc.hyps(2) by simp
    from Suc.hyps(1) [OF this h1(2) True]
    obtain h' where "do_while t fin body (Suc i) h1 = Inr h'" "I n h'"
      by blast
    then show ?thesis
      using h1(1) True cond [OF Suc.prems(2)]
      by (subst do_while.simps) simp
  next
    case False
    then have "Suc i = n"
      using Suc.prems(2) by simp
    then show ?thesis
      using h1 False cond [OF Suc.prems(2)]
      by (subst do_while.simps) auto
  qed
qed

lemma set_array_self:
  "objs h p = Some d \<Longrightarrow> set_array h p (array d) = h"
  by (simp add: set_array_def fun_upd_idem)

lemma objs_set_array:
  "objs (set_array h p xs) q =
     (if q = p then map_option (\<lambda>d. d\<lparr>array := xs\<rparr>) (objs h p) else objs h q)"
  by (simp add: set_array_def split: option.splits)

lemma next_addr_set_array: "next_addr (set_array h p xs) = next_addr h"
  by (simp add: set_array_def split: option.splits)

lemma store_set_array:
  "objs h p = Some d \<Longrightarrow> i < length xs \<Longrightarrow>
     store (set_array h p xs) p i v = Inr (set_array h p (xs[i := v]))"
  by (simp add: store_def set_array_def)

lemma load_set_array_other:
  "objs h q = Some d \<Longrightarrow> k < length (array d) \<Longrightarrow> q \<noteq> p \<Longrightarrow>
     load (set_array h p xs) q k = Inr (array d ! k)"
  by (simp add: load_def objs_set_array)

lemma load_set_array_same:
  "objs h p = Some d \<Longrightarrow> k < length xs \<Longrightarrow>
     load (set_array h p xs) p k = Inr (xs ! k)"
  by (simp add: load_def objs_set_array)

lemma load_set_array:
  assumes "objs h q = Some d" "k < length (array d)"
    and "q = p \<longrightarrow> k < length xs \<and> xs ! k = array d ! k"
  shows "load (set_array h p xs) q k = Inr (array d ! k)"
proof (cases "q = p")
  case True
  with assms show ?thesis
    by (simp add: load_set_array_same)
next
  case False
  with assms show ?thesis
    by (simp add: load_set_array_other)
qed

lemma take_drop_update:
  assumes "i < length res" "length arr = length res"
  shows "(take i res @ drop i arr)[i := res ! i] = take (Suc i) res @ drop (Suc i) arr"
proof -
  have d: "drop i arr = arr ! i # drop (Suc i) arr"
    using assms by (simp add: Cons_nth_drop_Suc)
  have "(take i res @ drop i arr)[i := res ! i] = take i res @ (drop i arr)[0 := res ! i]"
    using assms by (simp add: list_update_append)
  also have "\<dots> = take i res @ res ! i # drop (Suc i) arr"
    by (subst d) simp
  also have "\<dots> = take (Suc i) res @ drop (Suc i) arr"
    using assms by (simp add: take_Suc_conv_app_nth)
  finally show ?thesis .
qed

lemma take_drop_nth:
  "i < length arr \<Longrightarrow> length arr = length res \<Longrightarrow> (take i res @ drop i arr) ! i = arr ! i"
  by (simp add: nth_append)

text \<open>
  A loop of \<open>m\<close> rounds that assigns element after element of the buffer of \<open>out\<close>
  leaves the first \<open>m\<close> elements assigned and the others as they were. The right-hand
  side is evaluated in the store as the earlier rounds have left it.
\<close>

lemma assign_loop_upto:
  assumes out: "objs h out = Some od"
    and len: "length (array od) = n" "length res = n" "0 < m" "m \<le> n"
    and fin: "\<And>i. i < m \<Longrightarrow> (Suc i * c_sizeof t < fin) = (Suc i < m)"
    and rhs: "\<And>i. i < m \<Longrightarrow>
                rhs i (set_array h out (take i res @ drop i (array od))) = Inr (res ! i)"
  shows "do_while t fin (assign rhs out) 0 h
           = Inr (set_array h out (take m res @ drop m (array od)))"
proof -
  define I where "I = (\<lambda>i h'. h' = set_array h out (take i res @ drop i (array od)))"
  have "\<exists>h'. do_while t fin (assign rhs out) 0 h = Inr h' \<and> I m h'"
  proof (rule do_while_rule [where I = I])
    fix i h'
    assume i: "i < m" and "I i h'"
    then have h': "h' = set_array h out (take i res @ drop i (array od))"
      by (simp add: I_def)
    have "assign rhs out i h'
            = Inr (set_array h out ((take i res @ drop i (array od))[i := res ! i]))"
      using i len by (simp add: assign_def h' rhs store_set_array [OF out])
    then show "\<exists>h''. assign rhs out i h' = Inr h'' \<and> I (Suc i) h''"
      using i len by (simp add: I_def take_drop_update)
  next
    fix i
    assume "i < m"
    then show "(Suc i * c_sizeof t < fin) = (Suc i < m)"
      by (rule fin)
  next
    show "I 0 h"
      by (simp add: I_def set_array_self [OF out])
  next
    show "0 < m" by fact
  qed
  then show ?thesis
    by (auto simp add: I_def)
qed

lemma assign_loop:
  assumes out: "objs h out = Some od"
    and len: "length (array od) = n" "length res = n" "0 < n"
    and fin: "fin = n * c_sizeof t"
    and rhs: "\<And>i. i < n \<Longrightarrow>
                rhs i (set_array h out (take i res @ drop i (array od))) = Inr (res ! i)"
  shows "do_while t fin (assign rhs out) 0 h = Inr (set_array h out res)"
proof -
  have "do_while t fin (assign rhs out) 0 h
          = Inr (set_array h out (take n res @ drop n (array od)))"
  proof (rule assign_loop_upto [OF out len(1) len(2) len(3)])
    show "n \<le> n" by simp
  next
    fix i
    show "(Suc i * c_sizeof t < fin) = (Suc i < n)"
      unfolding fin by (simp del: mult_Suc)
  next
    fix i
    assume "i < n"
    then show "rhs i (set_array h out (take i res @ drop i (array od))) = Inr (res ! i)"
      by (rule rhs)
  qed
  then show ?thesis
    using len by simp
qed

lemma gal_data_alloc_fresh:
  assumes "wf_heap h" "objs h p = Some d"
  shows "p \<noteq> next_addr h"
  using assms by (auto simp add: wf_heap_def)

subsection \<open>Facts about the concrete stores\<close>

lemma wf_heap_mk_heap: "wf_heap (mk_heap ds)"
  by (simp add: wf_heap_def mk_heap_def)

lemma objs_mk_heap: "objs (mk_heap ds) p = (if p < length ds then Some (ds ! p) else None)"
  by (simp add: mk_heap_def)

lemma wf_data_mk_data:
  "wf_data (mk_data t ds xs) \<longleftrightarrow> length xs = prod_list ds \<and> 0 < prod_list ds"
  by (auto simp add: wf_data_def mk_data_def)

lemma type_mk_data: "type (mk_data t ds xs) = t"
  by (simp add: mk_data_def)

lemma size_f_mk_data: "size_f (mk_data t ds xs) = prod_list ds"
  by (simp add: mk_data_def)

lemma dsize_mk_data: "dsize (mk_data t ds xs) = ds"
  by (simp add: mk_data_def)

lemma ndim_mk_data: "ndim (mk_data t ds xs) = length ds"
  by (simp add: mk_data_def)

lemma array_mk_data: "array (mk_data t ds xs) = map Some xs"
  by (simp add: mk_data_def)

lemmas mk_simps =
  objs_mk_heap wf_heap_mk_heap wf_data_mk_data type_mk_data size_f_mk_data dsize_mk_data
  ndim_mk_data array_mk_data float_ctype_def gal_data_dsize_is_different_def
  gal_data_out_type_def

lemma heap_1_5_facts:
  "objs heap_1_5 0 = Some (mk_data GAL_DATA_TYPE_FLOAT [1] [2])"
  "objs heap_1_5 1 = Some (mk_data GAL_DATA_TYPE_FLOAT [5] [1, 2, 3, 4, 5])"
  "wf_heap heap_1_5"
  "wf_data (mk_data GAL_DATA_TYPE_FLOAT [1] [2 :: int])"
  "wf_data (mk_data GAL_DATA_TYPE_FLOAT [5] [1, 2, 3, 4, 5 :: int])"
  "float_ctype (type (mk_data GAL_DATA_TYPE_FLOAT [1] [2 :: int])) = Some c_float"
  "float_ctype (type (mk_data GAL_DATA_TYPE_FLOAT [5] [1, 2, 3, 4, 5 :: int])) = Some c_float"
  "size_f (mk_data GAL_DATA_TYPE_FLOAT [1] [2 :: int]) = 1"
  "size_f (mk_data GAL_DATA_TYPE_FLOAT [5] [1, 2, 3, 4, 5 :: int]) = 5"
  "gal_data_dsize_is_different (mk_data GAL_DATA_TYPE_FLOAT [1] [2 :: int])
     (mk_data GAL_DATA_TYPE_FLOAT [5] [1, 2, 3, 4, 5 :: int])"
  by (simp_all add: heap_1_5_def objs_mk_heap wf_heap_mk_heap wf_data_mk_data type_mk_data
      float_ctype_def gal_data_dsize_is_different_def)
     (simp_all add: mk_data_def)

lemma binfunc_array_1_5:
  "binfunc_array (binfunc_elem int_platform c_float c_float c_float (c_pow int_platform))
     [Some 2] [Some 1, Some 2, Some 3, Some 4, Some 5] 5
   = [Some 2, Some 4, Some 8, Some 16, Some 32]"
  by (simp add: binfunc_array_def broadcast_def binfunc_elem_def c_convert_def int_platform_def
      int_convert_def upt_conv_Cons)

subsection \<open>Properties of the type change\<close>

text \<open>
  Claim C1 (every supported target kind is the kind of the result of the cast) does not
  hold for the target \<^verbatim>\<open>char\<close>: the operator \<^verbatim>\<open>GAL_DATA_OPERATOR_TO_CHAR\<close> is mapped
  to \<^verbatim>\<open>GAL_DATA_TYPE_UCHAR\<close>, so that it does on every input what
  \<^verbatim>\<open>GAL_DATA_OPERATOR_TO_UCHAR\<close> does. The result of casting the \<^verbatim>\<open>int\<close> array
  [1, 2, 3] to \<^verbatim>\<open>char\<close> has the kind \<^verbatim>\<open>unsigned char\<close>, not \<^verbatim>\<open>char\<close>. Its shape
  is the input's.
\<close>

theorem change_type_to_char_yields_uchar:
  "data_arithmetic_change_type P h data GAL_DATA_OPERATOR_TO_CHAR flags
     = data_arithmetic_change_type P h data GAL_DATA_OPERATOR_TO_UCHAR flags
   \<and> (\<exists>out h' d.
         data_arithmetic_change_type int_platform
           (mk_heap [mk_data GAL_DATA_TYPE_INT [3] [1, 2, 3]]) 0 GAL_DATA_OPERATOR_TO_CHAR {}
           = Inr (out, h')
         \<and> objs h' out = Some d
         \<and> type d = GAL_DATA_TYPE_UCHAR
         \<and> type d \<noteq> GAL_DATA_TYPE_CHAR
         \<and> dsize d = [3])"
  by (simp add: data_arithmetic_change_type_def gal_data_copy_to_new_type_def
      gal_data_alloc_def mk_heap_def mk_data_def)

subsection \<open>Properties of the logical negation\<close>

lemma rounds_continue:
  assumes w: "0 < w" and n: "0 < n"
  shows "(Suc i * w < n) = (Suc i < rounds w n)"
proof -
  define a where "a = Suc i * w"
  have "Suc i < (n + w - 1) div w \<longleftrightarrow> Suc (Suc i) \<le> (n + w - 1) div w"
    by auto
  also have "\<dots> \<longleftrightarrow> Suc (Suc i) * w \<le> n + w - 1"
    using w by (simp only: less_eq_div_iff_mult_less_eq)
  also have "Suc (Suc i) * w = a + w"
    by (simp add: a_def)
  also have "a + w \<le> n + w - 1 \<longleftrightarrow> a < n"
    using w n by linarith
  finally have "Suc i < (n + w - 1) div w \<longleftrightarrow> Suc i * w < n"
    by (simp add: a_def)
  then show ?thesis
    by (auto simp add: rounds_def)
qed

lemma rounds_le:
  assumes w: "0 < w" and n: "0 < n"
  shows "rounds w n \<le> n"
proof -
  have "n + w - 1 < Suc n * w"
  proof -
    have "n \<le> n * w"
      using w by simp
    moreover have "Suc n * w = n * w + w"
      by simp
    ultimately show ?thesis
      using n w by linarith
  qed
  then have "(n + w - 1) div w < Suc n"
    using w by (simp only: div_less_iff_less_mult)
  then show ?thesis
    using n by (simp add: rounds_def)
qed

lemma rounds_pos: "0 < rounds w n"
  by (simp add: rounds_def)

lemma rounds_one: "0 < n \<Longrightarrow> rounds (Suc 0) n = n"
  by (simp add: rounds_def)

lemma TYPE_CASE_FOR_NOT_result:
  assumes data: "objs h data = Some d" and out: "objs h out = Some od"
    and ne: "data \<noteq> out"
    and len: "length (array d) = n" "length (array od) = n" "0 < n"
  shows "TYPE_CASE_FOR_NOT P t n data out h
           = Inr (set_array h out
               (take (rounds (c_sizeof t) n)
                  (map (map_option (\<lambda>v. logical_val P (is_zero P t v))) (array d))
                @ drop (rounds (c_sizeof t) n) (array od)))"
proof -
  let ?g = "\<lambda>v. logical_val P (is_zero P t v)"
  let ?res = "map (map_option ?g) (array d)"
  let ?m = "rounds (c_sizeof t) n"
  have "do_while t n
          (assign (\<lambda>i h. case load h data i of Inl e \<Rightarrow> Inl e
                          | Inr x \<Rightarrow> Inr (map_option ?g x)) out) 0 h
        = Inr (set_array h out (take ?m ?res @ drop ?m (array od)))"
  proof (rule assign_loop_upto [OF out len(2)])
    show "length ?res = n"
      using len by simp
    show "0 < ?m"
      by (rule rounds_pos)
    show "?m \<le> n"
      using len by (simp add: rounds_le)
  next
    fix i
    show "(Suc i * c_sizeof t < n) = (Suc i < ?m)"
      using len by (simp only: rounds_continue c_sizeof_pos)
  next
    fix i
    assume "i < ?m"
    moreover have "?m \<le> n"
      using len by (simp add: rounds_le)
    ultimately have i: "i < n"
      by simp
    have "load (set_array h out (take i ?res @ drop i (array od))) data i = Inr (array d ! i)"
      using i len ne by (simp add: load_set_array_other [OF data])
    then show "(case load (set_array h out (take i ?res @ drop i (array od))) data i of
                  Inl e \<Rightarrow> Inl e | Inr x \<Rightarrow> Inr (map_option ?g x)) = Inr (?res ! i)"
      using i len by simp
  qed
  then show ?thesis
    by (simp add: TYPE_CASE_FOR_NOT_def)
qed

lemma not_switch:
  assumes "gal_ctype (type d) = Some t"
  shows "(case type d of
            GAL_DATA_TYPE_UCHAR \<Rightarrow> TYPE_CASE_FOR_NOT P c_uchar n data out h1
          | GAL_DATA_TYPE_CHAR \<Rightarrow> TYPE_CASE_FOR_NOT P c_char n data out h1
          | GAL_DATA_TYPE_LOGICAL \<Rightarrow> TYPE_CASE_FOR_NOT P c_char n data out h1
          | GAL_DATA_TYPE_USHORT \<Rightarrow> TYPE_CASE_FOR_NOT P c_ushort n data out h1
          | GAL_DATA_TYPE_SHORT \<Rightarrow> TYPE_CASE_FOR_NOT P c_short n data out h1
          | GAL_DATA_TYPE_UINT \<Rightarrow> TYPE_CASE_FOR_NOT P c_uint n data out h1
          | GAL_DATA_TYPE_INT \<Rightarrow> TYPE_CASE_FOR_NOT P c_int n data out h1
          | GAL_DATA_TYPE_ULONG \<Rightarrow> TYPE_CASE_FOR_NOT P c_ulong n data out h1
          | GAL_DATA_TYPE_LONG \<Rightarrow> TYPE_CASE_FOR_NOT P c_long n data out h1
          | GAL_DATA_TYPE_LONGLONG \<Rightarrow> TYPE_CASE_FOR_NOT P c_LONGLONG n data out h1
          | GAL_DATA_TYPE_FLOAT \<Rightarrow> TYPE_CASE_FOR_NOT P c_float n data out h1
          | GAL_DATA_TYPE_DOUBLE \<Rightarrow> TYPE_CASE_FOR_NOT P c_double n data out h1
          | GAL_DATA_TYPE_BIT \<Rightarrow> Inl (UnsupportedKind, h1)
          | GAL_DATA_TYPE_OTHER k \<Rightarrow> Inl (InternalInvariant_type (type d), h1))
         = TYPE_CASE_FOR_NOT P t n data out h1"
  using assms by (cases "type d") simp_all

lemma not_result:
  assumes data: "objs h data = Some d"
    and wf: "wf_data d" "wf_heap h"
    and ct: "gal_ctype (type d) = Some t"
  shows "data_arithmetic_not P h data flags =
           Inr (next_addr h,
             (let h2 = set_array
                         (snd (gal_data_alloc P h GAL_DATA_TYPE_UCHAR (ndim d) (dsize d) (wcs d)
                                 False (minmapsize d)))
                         (next_addr h)
                         (take (rounds (c_sizeof t) (size_f d))
                            (map (map_option (\<lambda>v. logical_val P (is_zero P t v))) (array d))
                          @ replicate (size_f d - rounds (c_sizeof t) (size_f d)) None)
              in if GAL_DATA_ARITH_FREE \<in> flags
                 then h2\<lparr>objs := (objs h2)(data := None)\<rparr> else h2))"
proof -
  define out where "out = next_addr h"
  define h1 where "h1 = snd (gal_data_alloc P h GAL_DATA_TYPE_UCHAR (ndim d) (dsize d) (wcs d)
                               False (minmapsize d))"
  define od where "od = \<lparr>array = replicate (prod_list (dsize d)) (None :: 'a option),
              type = GAL_DATA_TYPE_UCHAR, ndim = ndim d, dsize = dsize d,
              size_f = prod_list (dsize d), wcs = wcs d, minmapsize = minmapsize d\<rparr>"
  define xs where "xs = take (rounds (c_sizeof t) (size_f d))
                            (map (map_option (\<lambda>v. logical_val P (is_zero P t v))) (array d))
                          @ replicate (size_f d - rounds (c_sizeof t) (size_f d)) None"
  have len: "length (array d) = size_f d" "0 < size_f d" "prod_list (dsize d) = size_f d"
    using wf by (simp_all add: wf_data_def)
  have al: "gal_data_alloc P h GAL_DATA_TYPE_UCHAR (ndim d) (dsize d) (wcs d) False (minmapsize d)
              = (out, h1)"
    by (simp add: gal_data_alloc_def out_def h1_def)
  have ne: "data \<noteq> out"
    unfolding out_def by (rule gal_data_alloc_fresh [OF wf(2) data])
  have data1: "objs h1 data = Some d"
    using ne data by (simp add: h1_def gal_data_alloc_def out_def)
  have out1: "objs h1 out = Some od"
    by (simp add: h1_def gal_data_alloc_def out_def od_def)
  have l1: "length (array od) = size_f d"
    using len by (simp add: od_def)
  have "TYPE_CASE_FOR_NOT P t (size_f d) data out h1 = Inr (set_array h1 out xs)"
    using TYPE_CASE_FOR_NOT_result [OF data1 out1 ne len(1) l1 len(2), where P = P and t = t] len
    by (simp add: xs_def od_def)
  moreover have "gal_data_free (set_array h1 out xs) data
              = Inr ((set_array h1 out xs)\<lparr>objs := (objs (set_array h1 out xs))(data := None)\<rparr>)"
    using ne data1 by (simp add: gal_data_free_def objs_set_array)
  ultimately have "data_arithmetic_not P h data flags =
           Inr (out,
             (let h2 = set_array h1 out xs
              in if GAL_DATA_ARITH_FREE \<in> flags
                 then h2\<lparr>objs := (objs h2)(data := None)\<rparr> else h2))"
    using data al not_switch [OF ct, where P = P and n = "size_f d" and data = data and out = out and ?h1.0 = h1]
    by (simp add: data_arithmetic_not_def Let_def del: gal_type.case)
  then show ?thesis
    by (simp add: out_def h1_def xs_def)
qed

text \<open>
  What \<^verbatim>\<open>data_arithmetic_not\<close> does establish. For a well-formed input of any of the
  twelve kinds with elements it returns a structure of the kind \<^verbatim>\<open>unsigned char\<close>
  and of the shape of the input, in which no element is anything but 1, 0 or never
  written. When the elements of the input are one byte wide (\<^verbatim>\<open>unsigned char\<close>,
  \<^verbatim>\<open>char\<close>, logical), the finish pointer of the loop is where it should be, and
  element \<open>i\<close> of the result is 1 if element \<open>i\<close> of the input is zero, and 0
  otherwise. For the packed-bit kind the call stops with the error for the unsupported
  kind.
\<close>

lemma not_kind_shape_elements:
  assumes data: "objs h data = Some d" and wf: "wf_data d" "wf_heap h"
  shows "(type d = GAL_DATA_TYPE_BIT \<longrightarrow>
            (\<exists>h'. data_arithmetic_not P h data flags = Inl (UnsupportedKind, h')))
       \<and> (\<forall>t. gal_ctype (type d) = Some t \<longrightarrow>
            (\<exists>out h' od.
               data_arithmetic_not P h data flags = Inr (out, h')
               \<and> objs h' out = Some od
               \<and> type od = GAL_DATA_TYPE_UCHAR
               \<and> ndim od = ndim d \<and> dsize od = dsize d \<and> size_f od = size_f d
               \<and> (\<forall>c \<in> set (array od).
                     c = None \<or> c = Some (logical_val P True) \<or> c = Some (logical_val P False))
               \<and> (c_sizeof t = 1 \<longrightarrow>
                     array od = map (map_option (\<lambda>v. logical_val P (is_zero P t v))) (array d))))"
proof (intro conjI impI allI)
  assume "type d = GAL_DATA_TYPE_BIT"
  then show "\<exists>h'. data_arithmetic_not P h data flags = Inl (UnsupportedKind, h')"
    by (simp add: data_arithmetic_not_def data gal_data_alloc_def)
next
  fix t
  assume ct: "gal_ctype (type d) = Some t"
  define m where "m = rounds (c_sizeof t) (size_f d)"
  define res where "res = map (map_option (\<lambda>v. logical_val P (is_zero P t v))) (array d)"
  define xs where "xs = take m res @ replicate (size_f d - m) None"
  define h2 where "h2 = set_array
                         (snd (gal_data_alloc P h GAL_DATA_TYPE_UCHAR (ndim d) (dsize d) (wcs d)
                                 False (minmapsize d)))
                         (next_addr h) xs"
  define h' where "h' = (if GAL_DATA_ARITH_FREE \<in> flags
                         then h2\<lparr>objs := (objs h2)(data := None)\<rparr> else h2)"
  define od where "od = the (objs h' (next_addr h))"
  have len: "length (array d) = size_f d" "0 < size_f d" "prod_list (dsize d) = size_f d"
    using wf by (simp_all add: wf_data_def)
  have ne: "data \<noteq> next_addr h"
    by (rule gal_data_alloc_fresh [OF wf(2) data])
  have r: "data_arithmetic_not P h data flags = Inr (next_addr h, h')"
    by (simp add: not_result [OF data wf ct] h'_def h2_def xs_def res_def m_def Let_def)
  have o: "objs h' (next_addr h) = Some od" "type od = GAL_DATA_TYPE_UCHAR"
    "ndim od = ndim d" "dsize od = dsize d" "size_f od = size_f d" "array od = xs"
    using ne len
    by (simp_all add: od_def h'_def h2_def objs_set_array gal_data_alloc_def)
  have el: "\<forall>c \<in> set xs.
              c = None \<or> c = Some (logical_val P True) \<or> c = Some (logical_val P False)"
  proof
    fix c
    assume "c \<in> set xs"
    then have "c \<in> set res \<or> c = None"
      by (auto simp add: xs_def dest: in_set_takeD)
    then obtain x where "c = map_option (\<lambda>v. logical_val P (is_zero P t v)) x \<or> c = None"
      by (auto simp add: res_def)
    then show "c = None \<or> c = Some (logical_val P True) \<or> c = Some (logical_val P False)"
    proof (cases x)
      case None
      with \<open>c = map_option (\<lambda>v. logical_val P (is_zero P t v)) x \<or> c = None\<close>
      show ?thesis by simp
    next
      case (Some v)
      with \<open>c = map_option (\<lambda>v. logical_val P (is_zero P t v)) x \<or> c = None\<close>
      show ?thesis by (cases "is_zero P t v") auto
    qed
  qed
  have one: "c_sizeof t = 1 \<longrightarrow> xs = res"
    using len by (auto simp add: xs_def m_def rounds_one res_def)
  from r o el one
  show "\<exists>out h' od.
               data_arithmetic_not P h data flags = Inr (out, h')
               \<and> objs h' out = Some od
               \<and> type od = GAL_DATA_TYPE_UCHAR
               \<and> ndim od = ndim d \<and> dsize od = dsize d \<and> size_f od = size_f d
               \<and> (\<forall>c \<in> set (array od).
                     c = None \<or> c = Some (logical_val P True) \<or> c = Some (logical_val P False))
               \<and> (c_sizeof t = 1 \<longrightarrow>
                     array od = map (map_option (\<lambda>v. logical_val P (is_zero P t v))) (array d))"
    unfolding res_def by blast
qed

lemma not_kind_shape_elements_example:
  "(\<exists>h'. data_arithmetic_not int_platform
            (mk_heap [mk_data GAL_DATA_TYPE_BIT [4] [0, 2, 0, 5]]) 0 {}
          = Inl (UnsupportedKind, h'))
   \<and> (\<exists>out h' od.
         data_arithmetic_not int_platform
            (mk_heap [mk_data GAL_DATA_TYPE_UCHAR [4] [0, 2, 0, 5]]) 0 {}
          = Inr (out, h')
         \<and> objs h' out = Some od
         \<and> type od = GAL_DATA_TYPE_UCHAR
         \<and> dsize od = [4]
         \<and> array od = [Some 1, Some 0, Some 1, Some 0])"
proof (rule conjI)
  have "wf_data (mk_data GAL_DATA_TYPE_BIT [4] [0, 2, 0, 5 :: int])"
    by (simp add: wf_data_mk_data)
  then show "\<exists>h'. data_arithmetic_not int_platform
            (mk_heap [mk_data GAL_DATA_TYPE_BIT [4] [0, 2, 0, 5]]) 0 {}
          = Inl (UnsupportedKind, h')"
    using not_kind_shape_elements
      [of "mk_heap [mk_data GAL_DATA_TYPE_BIT [4] [0, 2, 0, 5]]" 0
          "mk_data GAL_DATA_TYPE_BIT [4] [0, 2, 0, 5]" int_platform "{}"]
    by (simp add: objs_mk_heap type_mk_data wf_heap_mk_heap)
next
  have wf: "wf_data (mk_data GAL_DATA_TYPE_UCHAR [4] [0, 2, 0, 5 :: int])"
    by (simp add: wf_data_mk_data)
  have hp: "objs (mk_heap [mk_data GAL_DATA_TYPE_UCHAR [4] [0, 2, 0, 5 :: int]]) 0
              = Some (mk_data GAL_DATA_TYPE_UCHAR [4] [0, 2, 0, 5])"
    by (simp add: objs_mk_heap)
  have ct: "gal_ctype (type (mk_data GAL_DATA_TYPE_UCHAR [4] [0, 2, 0, 5 :: int])) = Some c_uchar"
    by (simp add: type_mk_data)
  from not_kind_shape_elements [OF hp wf wf_heap_mk_heap, where P = int_platform and flags = "{}"]
    ct
  obtain out h' od where
    "data_arithmetic_not int_platform
       (mk_heap [mk_data GAL_DATA_TYPE_UCHAR [4] [0, 2, 0, 5]]) 0 {} = Inr (out, h')"
    "objs h' out = Some od" "type od = GAL_DATA_TYPE_UCHAR"
    "dsize od = dsize (mk_data GAL_DATA_TYPE_UCHAR [4] [0, 2, 0, 5 :: int])"
    "c_sizeof c_uchar = 1 \<longrightarrow>
       array od = map (map_option (\<lambda>v. logical_val int_platform (is_zero int_platform c_uchar v)))
                    (array (mk_data GAL_DATA_TYPE_UCHAR [4] [0, 2, 0, 5 :: int]))"
    by blast
  then show "\<exists>out h' od.
         data_arithmetic_not int_platform
            (mk_heap [mk_data GAL_DATA_TYPE_UCHAR [4] [0, 2, 0, 5]]) 0 {}
          = Inr (out, h')
         \<and> objs h' out = Some od
         \<and> type od = GAL_DATA_TYPE_UCHAR
         \<and> dsize od = [4]
         \<and> array od = [Some 1, Some 0, Some 1, Some 0]"
    by (simp add: mk_data_def int_platform_def)
qed

lemmas not_unfold =
  data_arithmetic_not_def TYPE_CASE_FOR_NOT_def gal_data_alloc_def assign_def load_def
  store_def do_while.simps mk_heap_def mk_data_def int_platform_def gal_data_free_def

text \<open>
  Claim C5 (element \<open>i\<close> of the result of the logical negation is 1 if element \<open>i\<close>
  of the input is zero, and 0 otherwise) does not hold when the elements of the input are
  wider than one byte. The finish pointer of the loop is \<^verbatim>\<open>data->array + data->size\<close>,
  \<open>size\<close> bytes and not \<open>size\<close> elements into the buffer of the input: for the
  \<^verbatim>\<open>short\<close> input [0, 2, 0, 5] it is four bytes, that is two elements, into the buffer,
  and the loop stops after the second element. The result is [1, 0, -, -], its last two
  elements never written, where the claim has [1, 0, 1, 0]. The kind of the result is
  \<^verbatim>\<open>GAL_DATA_TYPE_UCHAR\<close>, the kind the output is allocated with.
\<close>

theorem not_short_input:
  "(case data_arithmetic_not int_platform
           (mk_heap [mk_data GAL_DATA_TYPE_SHORT [4] [0, 2, 0, 5]]) 0 {} of
      Inl e \<Rightarrow> False
    | Inr (out, h') \<Rightarrow>
        map_option type (objs h' out) = Some GAL_DATA_TYPE_UCHAR
        \<and> map_option type (objs h' out) \<noteq> Some GAL_DATA_TYPE_LOGICAL
        \<and> map_option array (objs h' out) = Some [Some 1, Some 0, None, None])"
  by (simp add: not_unfold) (simp add: eval_nat_numeral)

subsection \<open>Properties of the unary functions\<close>

lemma UNIFUNC_RUN_FUNCTION_result:
  assumes inp: "objs h inp = Some d" and out: "objs h out = Some od"
    and len: "length (array d) = size_f od" "length (array od) = size_f od" "0 < size_f od"
  shows "UNIFUNC_RUN_FUNCTION P IT OP inp out h
           = Inr (set_array h out (map (map_option (unifunc_elem P IT OP)) (array d)))"
proof -
  let ?f = "unifunc_elem P IT OP"
  let ?res = "map (map_option ?f) (array d)"
  have "do_while IT (size_f od * c_sizeof IT)
          (assign (\<lambda>i h. case load h inp i of Inl e \<Rightarrow> Inl e
                          | Inr x \<Rightarrow> Inr (map_option ?f x)) out) 0 h
        = Inr (set_array h out ?res)"
  proof (rule assign_loop [OF out len(2) _ len(3) refl])
    show "length ?res = size_f od"
      using len by simp
  next
    fix i
    assume i: "i < size_f od"
    have "load (set_array h out (take i ?res @ drop i (array od))) inp i = Inr (array d ! i)"
    proof (rule load_set_array [OF inp])
      show "i < length (array d)"
        using i len by simp
      show "inp = out \<longrightarrow> i < length (take i ?res @ drop i (array od))
              \<and> (take i ?res @ drop i (array od)) ! i = array d ! i"
      proof
        assume "inp = out"
        with inp out have "od = d" by simp
        then show "i < length (take i ?res @ drop i (array od))
              \<and> (take i ?res @ drop i (array od)) ! i = array d ! i"
          using i len by (simp add: take_drop_nth)
      qed
    qed
    then show "(case load (set_array h out (take i ?res @ drop i (array od))) inp i of
                  Inl e \<Rightarrow> Inl e | Inr x \<Rightarrow> Inr (map_option ?f x)) = Inr (?res ! i)"
      using i len by simp
  qed
  then show ?thesis
    by (simp add: UNIFUNC_RUN_FUNCTION_def out)
qed

lemma UNIFUNC_F_OPERATOR_DONE_result:
  assumes inp: "objs h inp = Some d" and out: "objs h out = Some od"
    and len: "length (array d) = size_f od" "length (array od) = size_f od" "0 < size_f od"
    and ty: "float_ctype (type d) = Some IT"
  shows "UNIFUNC_F_OPERATOR_DONE P OP inp out h
           = Inr (set_array h out (map (map_option (unifunc_elem P IT OP)) (array d)))"
  by (simp add: UNIFUNC_F_OPERATOR_DONE_def inp ty UNIFUNC_RUN_FUNCTION_result [OF inp out len])

lemma check_float_input_ok:
  "objs h p = Some d \<Longrightarrow> float_ctype (type d) = Some t \<Longrightarrow>
     check_float_input h p operator numstr = Inr h"
  by (cases "type d") (simp_all add: check_float_input_def float_ctype_def)

text \<open>
  The result of the unary function on a well-formed floating-point operand, for an
  operator of its switch: in place, the store with the buffer of the operand replaced;
  otherwise a new structure at the next address, and the operand released at the end
  when the flags say so.
\<close>

lemma unary_result:
  assumes inp: "objs h inp = Some d"
    and ty: "float_ctype (type d) = Some IT"
    and wf: "wf_data d" "wf_heap h"
    and op: "unifunc_operator P operator = Some OP"
  shows "data_arithmetic_unary_function_f P h operator flags inp =
           (if GAL_DATA_ARITH_INPLACE \<in> flags
            then Inr (inp, set_array h inp (map (map_option (unifunc_elem P IT OP)) (array d)))
            else Inr (next_addr h,
                   (let h2 = set_array
                               (snd (gal_data_alloc P h (type d) (ndim d) (dsize d) (wcs d) False
                                       (minmapsize d)))
                               (next_addr h) (map (map_option (unifunc_elem P IT OP)) (array d))
                    in if GAL_DATA_ARITH_FREE \<in> flags
                       then h2\<lparr>objs := (objs h2)(inp := None)\<rparr> else h2)))"
proof -
  let ?res = "map (map_option (unifunc_elem P IT OP)) (array d)"
  have chk: "check_float_input h inp operator ''first'' = Inr h"
    by (rule check_float_input_ok [OF inp ty])
  have len: "length (array d) = size_f d" "0 < size_f d" "prod_list (dsize d) = size_f d"
    using wf by (simp_all add: wf_data_def)
  show ?thesis
  proof (cases "GAL_DATA_ARITH_INPLACE \<in> flags")
    case True
    have "UNIFUNC_F_OPERATOR_DONE P OP inp inp h = Inr (set_array h inp ?res)"
      by (rule UNIFUNC_F_OPERATOR_DONE_result [OF inp inp len(1) len(1) len(2) ty])
    with True chk inp op show ?thesis
      by (simp add: data_arithmetic_unary_function_f_def)
  next
    case False
    define out where "out = next_addr h"
    define h1 where "h1 = snd (gal_data_alloc P h (type d) (ndim d) (dsize d) (wcs d) False
                                 (minmapsize d))"
    define od where "od = \<lparr>array = replicate (prod_list (dsize d)) (None :: 'a option),
                type = type d, ndim = ndim d, dsize = dsize d, size_f = prod_list (dsize d),
                wcs = wcs d, minmapsize = minmapsize d\<rparr>"
    have al: "gal_data_alloc P h (type d) (ndim d) (dsize d) (wcs d) False (minmapsize d)
                = (out, h1)"
      by (simp add: gal_data_alloc_def out_def h1_def)
    have ne: "inp \<noteq> out"
      unfolding out_def by (rule gal_data_alloc_fresh [OF wf(2) inp])
    have inp1: "objs h1 inp = Some d"
      using ne inp by (simp add: h1_def gal_data_alloc_def out_def)
    have out1: "objs h1 out = Some od"
      by (simp add: h1_def gal_data_alloc_def out_def od_def)
    have l1: "length (array d) = size_f od" "length (array od) = size_f od" "0 < size_f od"
      using len by (simp_all add: od_def)
    have run: "UNIFUNC_F_OPERATOR_DONE P OP inp out h1 = Inr (set_array h1 out ?res)"
      by (rule UNIFUNC_F_OPERATOR_DONE_result [OF inp1 out1 l1 ty])
    have fr: "gal_data_free (set_array h1 out ?res) inp
                = Inr ((set_array h1 out ?res)
                         \<lparr>objs := (objs (set_array h1 out ?res))(inp := None)\<rparr>)"
      using ne inp1 by (simp add: gal_data_free_def objs_set_array)
    have "data_arithmetic_unary_function_f P h operator flags inp =
            Inr (out,
              (let h2 = set_array h1 out ?res
               in if GAL_DATA_ARITH_FREE \<in> flags
                  then h2\<lparr>objs := (objs h2)(inp := None)\<rparr> else h2))"
      using False chk inp al op run fr ne
      by (simp add: data_arithmetic_unary_function_f_def Let_def)
    then show ?thesis
      using False by (simp add: out_def h1_def)
  qed
qed

text \<open>
  Claim C8. An operand whose kind is neither \<^verbatim>\<open>float\<close> nor \<^verbatim>\<open>double\<close> stops
  \<^verbatim>\<open>data_arithmetic_unary_function_f\<close> with the type error, which names the operator and
  the kind of the operand, whatever the operator and the flags; the store is as it was, so
  nothing has been converted. For a well-formed floating-point operand and each of the
  operators sqrt, log and log10 the call returns a structure of the kind and of the shape
  of the operand.
\<close>

theorem unary_function_float_only:
  assumes inp: "objs h inp = Some d"
  shows "(type d \<noteq> GAL_DATA_TYPE_FLOAT \<and> type d \<noteq> GAL_DATA_TYPE_DOUBLE \<longrightarrow>
            data_arithmetic_unary_function_f P h operator flags inp
              = Inl (TypeMismatch operator ''first'' (type d), h))
       \<and> ((type d = GAL_DATA_TYPE_FLOAT \<or> type d = GAL_DATA_TYPE_DOUBLE)
            \<and> wf_data d \<and> wf_heap h
            \<and> operator \<in> {GAL_DATA_OPERATOR_SQRT, GAL_DATA_OPERATOR_LOG, GAL_DATA_OPERATOR_LOG10}
          \<longrightarrow> (\<exists>out h' od.
                 data_arithmetic_unary_function_f P h operator flags inp = Inr (out, h')
                 \<and> objs h' out = Some od
                 \<and> type od = type d \<and> ndim od = ndim d \<and> dsize od = dsize d
                 \<and> size_f od = size_f d))"
proof (intro conjI impI)
  assume "type d \<noteq> GAL_DATA_TYPE_FLOAT \<and> type d \<noteq> GAL_DATA_TYPE_DOUBLE"
  then have "check_float_input h inp operator ''first''
               = Inl (TypeMismatch operator ''first'' (type d), h)"
    by (cases "type d") (simp_all add: check_float_input_def inp)
  then show "data_arithmetic_unary_function_f P h operator flags inp
               = Inl (TypeMismatch operator ''first'' (type d), h)"
    by (simp add: data_arithmetic_unary_function_f_def)
next
  assume a: "(type d = GAL_DATA_TYPE_FLOAT \<or> type d = GAL_DATA_TYPE_DOUBLE)
            \<and> wf_data d \<and> wf_heap h
            \<and> operator \<in> {GAL_DATA_OPERATOR_SQRT, GAL_DATA_OPERATOR_LOG, GAL_DATA_OPERATOR_LOG10}"
  then have ne: "inp \<noteq> next_addr h" and sz: "prod_list (dsize d) = size_f d"
    using inp by (auto simp add: wf_heap_def wf_data_def)
  from a obtain IT where ty: "float_ctype (type d) = Some IT"
    by (auto simp add: float_ctype_def)
  from a obtain OP where op: "unifunc_operator P operator = Some OP"
    by (auto simp add: unifunc_operator_def)
  from a have wf: "wf_data d" "wf_heap h"
    by simp_all
  show "\<exists>out h' od.
                 data_arithmetic_unary_function_f P h operator flags inp = Inr (out, h')
                 \<and> objs h' out = Some od
                 \<and> type od = type d \<and> ndim od = ndim d \<and> dsize od = dsize d
                 \<and> size_f od = size_f d"
    using inp ne sz
    by (simp add: unary_result [OF inp ty wf op] objs_set_array gal_data_alloc_def Let_def)
qed

theorem unary_function_float_only_witness:
  "data_arithmetic_unary_function_f int_platform
       (mk_heap [mk_data GAL_DATA_TYPE_INT [2] [4, 9]]) GAL_DATA_OPERATOR_SQRT {} 0
     = Inl (TypeMismatch GAL_DATA_OPERATOR_SQRT ''first'' GAL_DATA_TYPE_INT,
            mk_heap [mk_data GAL_DATA_TYPE_INT [2] [4, 9]])
   \<and> (\<exists>out h' od.
         data_arithmetic_unary_function_f int_platform
           (mk_heap [mk_data GAL_DATA_TYPE_FLOAT [2] [4, 9]]) GAL_DATA_OPERATOR_SQRT {} 0
         = Inr (out, h')
         \<and> objs h' out = Some od \<and> type od = GAL_DATA_TYPE_FLOAT \<and> dsize od = [2])"
proof (rule conjI)
  show "data_arithmetic_unary_function_f int_platform
       (mk_heap [mk_data GAL_DATA_TYPE_INT [2] [4, 9]]) GAL_DATA_OPERATOR_SQRT {} 0
     = Inl (TypeMismatch GAL_DATA_OPERATOR_SQRT ''first'' GAL_DATA_TYPE_INT,
            mk_heap [mk_data GAL_DATA_TYPE_INT [2] [4, 9]])"
    using unary_function_float_only
      [of "mk_heap [mk_data GAL_DATA_TYPE_INT [2] [4, 9]]" 0
          "mk_data GAL_DATA_TYPE_INT [2] [4, 9]" int_platform GAL_DATA_OPERATOR_SQRT "{}"]
    by (simp add: objs_mk_heap type_mk_data)
next
  have "wf_data (mk_data GAL_DATA_TYPE_FLOAT [2] [4, 9 :: int])"
    by (simp add: wf_data_mk_data)
  then show "\<exists>out h' od.
         data_arithmetic_unary_function_f int_platform
           (mk_heap [mk_data GAL_DATA_TYPE_FLOAT [2] [4, 9]]) GAL_DATA_OPERATOR_SQRT {} 0
         = Inr (out, h')
         \<and> objs h' out = Some od \<and> type od = GAL_DATA_TYPE_FLOAT \<and> dsize od = [2]"
    using unary_function_float_only
      [of "mk_heap [mk_data GAL_DATA_TYPE_FLOAT [2] [4, 9]]" 0
          "mk_data GAL_DATA_TYPE_FLOAT [2] [4, 9]" int_platform GAL_DATA_OPERATOR_SQRT "{}"]
    by (simp add: objs_mk_heap type_mk_data wf_heap_mk_heap) (auto simp add: mk_data_def)
qed

text \<open>
  Claim C9. For a well-formed floating-point operand whose elements have the C type
  \<open>IT\<close>, and an operator of the switch (sqrt, log, log10) with its function \<open>OP\<close>:
  with \<^verbatim>\<open>GAL_DATA_ARITH_INPLACE\<close> the structure returned is the operand itself, in a
  store that differs from the one before the call in the buffer of the operand only:
  nothing is allocated, and the operand is still allocated afterwards, also when
  \<^verbatim>\<open>GAL_DATA_ARITH_FREE\<close> is set. Without \<^verbatim>\<open>GAL_DATA_ARITH_INPLACE\<close> and with
  \<^verbatim>\<open>GAL_DATA_ARITH_FREE\<close> the call is the call without \<^verbatim>\<open>GAL_DATA_ARITH_FREE\<close>
  followed by the release of the operand: the operand is released from the store \<open>h2\<close>
  in which every element of the new output has been computed.
\<close>

theorem unary_function_in_place:
  assumes inp: "objs h inp = Some d"
    and ty: "float_ctype (type d) = Some IT"
    and wf: "wf_data d" "wf_heap h"
    and op: "unifunc_operator P operator = Some OP"
  shows "(GAL_DATA_ARITH_INPLACE \<in> flags \<longrightarrow>
            (\<exists>h'.
               data_arithmetic_unary_function_f P h operator flags inp = Inr (inp, h')
               \<and> h' = set_array h inp (map (map_option (unifunc_elem P IT OP)) (array d))
               \<and> next_addr h' = next_addr h
               \<and> objs h' inp
                   = Some (d\<lparr>array := map (map_option (unifunc_elem P IT OP)) (array d)\<rparr>)
               \<and> (\<forall>p. p \<noteq> inp \<longrightarrow> objs h' p = objs h p)))
       \<and> (GAL_DATA_ARITH_INPLACE \<notin> flags \<and> GAL_DATA_ARITH_FREE \<in> flags \<longrightarrow>
            (\<exists>h2 h' od.
               data_arithmetic_unary_function_f P h operator (flags - {GAL_DATA_ARITH_FREE}) inp
                 = Inr (next_addr h, h2)
               \<and> objs h2 inp = Some d
               \<and> objs h2 (next_addr h) = Some od
               \<and> array od = map (map_option (unifunc_elem P IT OP)) (array d)
               \<and> gal_data_free h2 inp = Inr h'
               \<and> data_arithmetic_unary_function_f P h operator flags inp
                   = Inr (next_addr h, h')
               \<and> objs h' inp = None
               \<and> objs h' (next_addr h) = Some od))"
proof -
  let ?res = "map (map_option (unifunc_elem P IT OP)) (array d)"
  note res = unary_result [OF inp ty wf op]
  have ne: "inp \<noteq> next_addr h"
    by (rule gal_data_alloc_fresh [OF wf(2) inp])
  show ?thesis
  proof (intro conjI impI)
    assume "GAL_DATA_ARITH_INPLACE \<in> flags"
    with inp show "\<exists>h'.
               data_arithmetic_unary_function_f P h operator flags inp = Inr (inp, h')
               \<and> h' = set_array h inp ?res
               \<and> next_addr h' = next_addr h
               \<and> objs h' inp = Some (d\<lparr>array := ?res\<rparr>)
               \<and> (\<forall>p. p \<noteq> inp \<longrightarrow> objs h' p = objs h p)"
      by (simp add: res objs_set_array next_addr_set_array)
  next
    assume fl: "GAL_DATA_ARITH_INPLACE \<notin> flags \<and> GAL_DATA_ARITH_FREE \<in> flags"
    define h2 where "h2 = set_array
                               (snd (gal_data_alloc P h (type d) (ndim d) (dsize d) (wcs d) False
                                       (minmapsize d)))
                               (next_addr h) ?res"
    define od where "od = the (objs h2 (next_addr h))"
    have 0: "data_arithmetic_unary_function_f P h operator (flags - {GAL_DATA_ARITH_FREE}) inp
               = Inr (next_addr h, h2)"
      using fl by (simp add: res h2_def Let_def)
    have 1: "data_arithmetic_unary_function_f P h operator flags inp
               = Inr (next_addr h, h2\<lparr>objs := (objs h2)(inp := None)\<rparr>)"
      using fl by (simp add: res h2_def Let_def)
    have 2: "objs h2 inp = Some d"
      using inp ne by (simp add: h2_def objs_set_array gal_data_alloc_def)
    have 3: "objs h2 (next_addr h) = Some od" "array od = ?res"
      by (simp_all add: od_def h2_def objs_set_array gal_data_alloc_def)
    have 4: "gal_data_free h2 inp = Inr (h2\<lparr>objs := (objs h2)(inp := None)\<rparr>)"
      using 2 by (simp add: gal_data_free_def)
    have 5: "objs (h2\<lparr>objs := (objs h2)(inp := None)\<rparr>) inp = None"
      "objs (h2\<lparr>objs := (objs h2)(inp := None)\<rparr>) (next_addr h) = Some od"
      using ne 3 by simp_all
    from 0 1 2 3 4 5 show "\<exists>h2 h' od.
               data_arithmetic_unary_function_f P h operator (flags - {GAL_DATA_ARITH_FREE}) inp
                 = Inr (next_addr h, h2)
               \<and> objs h2 inp = Some d
               \<and> objs h2 (next_addr h) = Some od
               \<and> array od = ?res
               \<and> gal_data_free h2 inp = Inr h'
               \<and> data_arithmetic_unary_function_f P h operator flags inp
                   = Inr (next_addr h, h')
               \<and> objs h' inp = None
               \<and> objs h' (next_addr h) = Some od"
      by blast
  qed
qed

theorem unary_function_in_place_witness:
  "(\<exists>h' d'.
      data_arithmetic_unary_function_f int_platform
        (mk_heap [mk_data GAL_DATA_TYPE_DOUBLE [2] [4, 9]]) GAL_DATA_OPERATOR_SQRT
        {GAL_DATA_ARITH_INPLACE, GAL_DATA_ARITH_FREE} 0 = Inr (0, h')
      \<and> next_addr h' = 1
      \<and> objs h' 0 = Some d' \<and> length (array d') = 2 \<and> None \<notin> set (array d'))
   \<and> (\<exists>h' od.
      data_arithmetic_unary_function_f int_platform
        (mk_heap [mk_data GAL_DATA_TYPE_DOUBLE [2] [4, 9]]) GAL_DATA_OPERATOR_SQRT
        {GAL_DATA_ARITH_FREE} 0 = Inr (1, h')
      \<and> objs h' 0 = None \<and> objs h' 1 = Some od
      \<and> length (array od) = 2 \<and> None \<notin> set (array od))"
proof -
  have wf: "wf_data (mk_data GAL_DATA_TYPE_DOUBLE [2] [4, 9 :: int])"
    by (simp add: wf_data_mk_data)
  have hp: "objs (mk_heap [mk_data GAL_DATA_TYPE_DOUBLE [2] [4, 9 :: int]]) 0
              = Some (mk_data GAL_DATA_TYPE_DOUBLE [2] [4, 9])"
    by (simp add: objs_mk_heap)
  have ty: "float_ctype (type (mk_data GAL_DATA_TYPE_DOUBLE [2] [4, 9 :: int])) = Some c_double"
    by (simp add: type_mk_data float_ctype_def)
  have op: "unifunc_operator int_platform GAL_DATA_OPERATOR_SQRT = Some (c_sqrt int_platform)"
    by (simp add: unifunc_operator_def)
  have nx: "next_addr (mk_heap [mk_data GAL_DATA_TYPE_DOUBLE [2] [4, 9 :: int]]) = 1"
    by (simp add: mk_heap_def)
  have ar: "array (mk_data GAL_DATA_TYPE_DOUBLE [2] [4, 9 :: int]) = [Some 4, Some 9]"
    by (simp add: array_mk_data)
  show ?thesis
    using unary_function_in_place [OF hp ty wf wf_heap_mk_heap op,
            where flags = "{GAL_DATA_ARITH_INPLACE, GAL_DATA_ARITH_FREE}"]
      unary_function_in_place [OF hp ty wf wf_heap_mk_heap op,
            where flags = "{GAL_DATA_ARITH_FREE}"]
    by (simp add: nx ar) force
qed

subsection \<open>Properties of the binary functions\<close>

lemma binfunc_rhs_result:
  assumes l: "objs h l = Some ld" and r: "objs h r = Some rd" and out: "objs h out = Some od"
    and i: "i < length (array od)" and len: "length res = length (array od)"
    and li: "li i < length (array ld)" "l = out \<longrightarrow> li i = i"
    and ri: "ri i < length (array rd)" "r = out \<longrightarrow> ri i = i"
  shows "binfunc_rhs f l li r ri i (set_array h out (take i res @ drop i (array od)))
           = Inr (case array ld ! (li i) of
                    None \<Rightarrow> None
                  | Some a \<Rightarrow> map_option (f a) (array rd ! (ri i)))"
proof -
  let ?xs = "take i res @ drop i (array od)"
  have lx: "length ?xs = length (array od)"
    using i len by simp
  have "load (set_array h out ?xs) l (li i) = Inr (array ld ! (li i))"
  proof (rule load_set_array [OF l li(1)])
    show "l = out \<longrightarrow> li i < length ?xs \<and> ?xs ! li i = array ld ! li i"
    proof
      assume e: "l = out"
      with l out have "od = ld" by simp
      moreover from e li(2) have "li i = i" by simp
      ultimately show "li i < length ?xs \<and> ?xs ! li i = array ld ! li i"
        using i len lx by (simp add: take_drop_nth)
    qed
  qed
  moreover have "load (set_array h out ?xs) r (ri i) = Inr (array rd ! (ri i))"
  proof (rule load_set_array [OF r ri(1)])
    show "r = out \<longrightarrow> ri i < length ?xs \<and> ?xs ! ri i = array rd ! ri i"
    proof
      assume e: "r = out"
      with r out have "od = rd" by simp
      moreover from e ri(2) have "ri i = i" by simp
      ultimately show "ri i < length ?xs \<and> ?xs ! ri i = array rd ! ri i"
        using i len lx by (simp add: take_drop_nth)
    qed
  qed
  ultimately show ?thesis
    by (simp add: binfunc_rhs_def)
qed

lemma binfunc_array_length: "length (binfunc_array f xs ys n) = n"
  by (simp add: binfunc_array_def)

lemma binfunc_array_nth:
  "i < n \<Longrightarrow> binfunc_array f xs ys n ! i =
     (case broadcast xs i of None \<Rightarrow> None | Some a \<Rightarrow> map_option (f a) (broadcast ys i))"
  by (simp add: binfunc_array_def cong: option.case_cong)

lemma BINFUNC_RUN_FUNCTION_result:
  assumes l: "objs h l = Some ld" and r: "objs h r = Some rd" and out: "objs h out = Some od"
    and len: "length (array ld) = size_f ld" "length (array rd) = size_f rd"
      "length (array od) = size_f od"
    and pos: "0 < size_f ld" "0 < size_f rd"
    and n: "size_f od = max (size_f ld) (size_f rd)"
    and compat: "size_f ld = size_f rd \<or> size_f ld = 1 \<or> size_f rd = 1"
  shows "BINFUNC_RUN_FUNCTION P OT RT LT OP l r out h
           = Inr (set_array h out
               (binfunc_array (binfunc_elem P OT RT LT OP) (array ld) (array rd) (size_f od)))"
proof -
  let ?f = "binfunc_elem P OT RT LT OP"
  let ?res = "binfunc_array ?f (array ld) (array rd) (size_f od)"
  have n0: "0 < size_f od"
    using n pos by simp
  have loop: "do_while OT (size_f od * c_sizeof OT) (assign (binfunc_rhs ?f l li r ri) out) 0 h
                = Inr (set_array h out ?res)"
    if idx: "\<And>i. i < size_f od \<Longrightarrow>
               li i < size_f ld \<and> ri i < size_f rd
               \<and> (size_f ld = size_f od \<longrightarrow> li i = i) \<and> (size_f rd = size_f od \<longrightarrow> ri i = i)
               \<and> array ld ! li i = broadcast (array ld) i
               \<and> array rd ! ri i = broadcast (array rd) i"
    for li ri
  proof (rule assign_loop [OF out len(3) _ n0 refl])
    show "length ?res = size_f od"
      by (rule binfunc_array_length)
  next
    fix i
    assume i: "i < size_f od"
    note ix = idx [OF i]
    have "binfunc_rhs ?f l li r ri i (set_array h out (take i ?res @ drop i (array od)))
           = Inr (case array ld ! (li i) of
                    None \<Rightarrow> None
                  | Some a \<Rightarrow> map_option (?f a) (array rd ! (ri i)))"
    proof (rule binfunc_rhs_result [OF l r out])
      show "i < length (array od)"
        using i len by simp
      show "length ?res = length (array od)"
        using len by (simp add: binfunc_array_length)
      show "li i < length (array ld)"
        using ix len by simp
      show "ri i < length (array rd)"
        using ix len by simp
      show "l = out \<longrightarrow> li i = i"
        using l out ix by auto
      show "r = out \<longrightarrow> ri i = i"
        using r out ix by auto
    qed
    then show "binfunc_rhs ?f l li r ri i (set_array h out (take i ?res @ drop i (array od)))
           = Inr (?res ! i)"
      using i ix by (simp add: binfunc_array_nth cong: option.case_cong)
  qed
  show ?thesis
  proof (cases "size_f ld = size_f rd")
    case True
    have "do_while OT (size_f od * c_sizeof OT)
            (assign (binfunc_rhs ?f l (\<lambda>i. i) r (\<lambda>i. i)) out) 0 h
          = Inr (set_array h out ?res)"
    proof (rule loop)
      fix i
      assume "i < size_f od"
      then show "i < size_f ld \<and> i < size_f rd
               \<and> (size_f ld = size_f od \<longrightarrow> i = i) \<and> (size_f rd = size_f od \<longrightarrow> i = i)
               \<and> array ld ! i = broadcast (array ld) i
               \<and> array rd ! i = broadcast (array rd) i"
        using True n len by (auto simp add: broadcast_def)
    qed
    with True show ?thesis
      by (simp add: BINFUNC_RUN_FUNCTION_def l r out)
  next
    case False
    show ?thesis
    proof (cases "size_f ld = 1")
      case True
      have "do_while OT (size_f od * c_sizeof OT)
              (assign (binfunc_rhs ?f l (\<lambda>i. 0) r (\<lambda>i. i)) out) 0 h
            = Inr (set_array h out ?res)"
      proof (rule loop)
        fix i
        assume "i < size_f od"
        then show "0 < size_f ld \<and> i < size_f rd
               \<and> (size_f ld = size_f od \<longrightarrow> 0 = i) \<and> (size_f rd = size_f od \<longrightarrow> i = i)
               \<and> array ld ! 0 = broadcast (array ld) i
               \<and> array rd ! i = broadcast (array rd) i"
          using True False n len pos by (auto simp add: broadcast_def)
      qed
      with True False show ?thesis
        by (simp add: BINFUNC_RUN_FUNCTION_def l r out)
    next
      case nl: False
      with False compat have r1: "size_f rd = 1"
        by simp
      have "do_while OT (size_f od * c_sizeof OT)
              (assign (binfunc_rhs ?f l (\<lambda>i. i) r (\<lambda>i. 0)) out) 0 h
            = Inr (set_array h out ?res)"
      proof (rule loop)
        fix i
        assume "i < size_f od"
        then show "i < size_f ld \<and> 0 < size_f rd
               \<and> (size_f ld = size_f od \<longrightarrow> i = i) \<and> (size_f rd = size_f od \<longrightarrow> 0 = i)
               \<and> array ld ! i = broadcast (array ld) i
               \<and> array rd ! 0 = broadcast (array rd) i"
          using r1 nl False n len pos by (auto simp add: broadcast_def)
      qed
      with nl False show ?thesis
        by (simp add: BINFUNC_RUN_FUNCTION_def l r out)
    qed
  qed
qed

lemma BINFUNC_F_OPERATOR_SET_result:
  assumes l: "objs h l = Some ld" and r: "objs h r = Some rd" and out: "objs h out = Some od"
    and len: "length (array ld) = size_f ld" "length (array rd) = size_f rd"
      "length (array od) = size_f od"
    and pos: "0 < size_f ld" "0 < size_f rd"
    and n: "size_f od = max (size_f ld) (size_f rd)"
    and compat: "size_f ld = size_f rd \<or> size_f ld = 1 \<or> size_f rd = 1"
    and ty: "float_ctype (type ld) = Some LT" "float_ctype (type rd) = Some RT"
      "float_ctype (type od) = Some OT"
  shows "BINFUNC_F_OPERATOR_SET P OP l r out h
           = Inr (set_array h out
               (binfunc_array (binfunc_elem P OT RT LT OP) (array ld) (array rd) (size_f od)))"
  by (simp add: BINFUNC_F_OPERATOR_SET_def l r out ty
      BINFUNC_RUN_FUNCTION_result [OF l r out len pos n compat])

lemma binary_clean_up_result:
  assumes l: "objs h l = Some a" and r: "objs h r = Some b" and ne: "l \<noteq> r"
  shows "\<exists>h'. binary_clean_up flags l r out h = Inr (out, h')
           \<and> next_addr h' = next_addr h
           \<and> objs h' out = objs h out
           \<and> (\<forall>p. p \<noteq> l \<and> p \<noteq> r \<longrightarrow> objs h' p = objs h p)
           \<and> (GAL_DATA_ARITH_FREE \<in> flags \<longrightarrow>
                 (out \<noteq> l \<longrightarrow> objs h' l = None) \<and> (out \<noteq> r \<longrightarrow> objs h' r = None))
           \<and> (GAL_DATA_ARITH_FREE \<notin> flags \<longrightarrow> h' = h)"
  using assms by (simp add: binary_clean_up_def gal_data_free_def)

lemma float_ctype_out_type:
  "\<exists>OT. float_ctype (gal_data_out_type ld rd) = Some OT"
  by (simp add: gal_data_out_type_def float_ctype_def)

text \<open>What the operands of a call that passes the check on the sizes look like.\<close>

lemma binary_sizes:
  assumes wf: "wf_data ld" "wf_data rd"
    and compat: "(GAL_DATA_ARITH_NUMOK \<in> flags \<and> (size_f ld = 1 \<or> size_f rd = 1))
                 \<or> \<not> gal_data_dsize_is_different ld rd"
  shows "size_f ld = size_f rd \<or> size_f ld = 1 \<or> size_f rd = 1"
    and "(if 1 < size_f ld then size_f ld else size_f rd) = max (size_f ld) (size_f rd)"
  using assms by (auto simp add: wf_data_def gal_data_dsize_is_different_def)

lemma binary_output_result:
  assumes l: "objs h l = Some ld" and r: "objs h r = Some rd"
    and wf: "wf_data ld" "wf_data rd" "wf_heap h"
    and compat: "(GAL_DATA_ARITH_NUMOK \<in> flags \<and> (size_f ld = 1 \<or> size_f rd = 1))
                 \<or> \<not> gal_data_dsize_is_different ld rd"
    and bo: "binary_output P h flags l ld r rd = (out, h1)"
  shows "\<exists>od. objs h1 out = Some od \<and> objs h1 l = Some ld \<and> objs h1 r = Some rd
           \<and> type od = gal_data_out_type ld rd
           \<and> size_f od = max (size_f ld) (size_f rd)
           \<and> length (array od) = size_f od
           \<and> ndim od = (if out = l then ndim ld else if out = r then ndim rd
                         else if 1 < size_f ld then ndim ld else ndim rd)
           \<and> dsize od = (if out = l then dsize ld else if out = r then dsize rd
                          else if 1 < size_f ld then dsize ld else dsize rd)"
proof -
  let ?final = "gal_data_out_type ld rd"
  let ?n = "if size_f ld > size_f rd then size_f ld else size_f rd"
  have mx: "?n = max (size_f ld) (size_f rd)"
    by simp
  note sz = binary_sizes [OF wf(1) wf(2) compat]
  have len: "length (array ld) = size_f ld" "length (array rd) = size_f rd"
    "prod_list (dsize ld) = size_f ld" "prod_list (dsize rd) = size_f rd"
    using wf by (simp_all add: wf_data_def)
  have fresh: "l \<noteq> next_addr h" "r \<noteq> next_addr h"
    using gal_data_alloc_fresh [OF wf(3) l] gal_data_alloc_fresh [OF wf(3) r] by simp_all
  consider (L) "GAL_DATA_ARITH_INPLACE \<in> flags \<and> type ld = ?final \<and> ?n = size_f ld"
    | (R) "\<not> (GAL_DATA_ARITH_INPLACE \<in> flags \<and> type ld = ?final \<and> ?n = size_f ld)"
          "GAL_DATA_ARITH_INPLACE \<in> flags \<and> type rd = ?final \<and> ?n = size_f rd"
    | (N) "\<not> (GAL_DATA_ARITH_INPLACE \<in> flags \<and> type ld = ?final \<and> ?n = size_f ld)"
          "\<not> (GAL_DATA_ARITH_INPLACE \<in> flags \<and> type rd = ?final \<and> ?n = size_f rd)"
    by blast
  then show ?thesis
  proof cases
    case L
    then have "out = l" "h1 = h"
      using bo by (simp_all add: binary_output_def Let_def)
    with L l r len mx show ?thesis
      by simp
  next
    case R
    then have "binary_output P h flags l ld r rd = (r, h)"
      by (auto simp add: binary_output_def Let_def)
    with bo have "out = r" "h1 = h"
      by simp_all
    with R l r len mx show ?thesis
      by auto
  next
    case N
    then have "binary_output P h flags l ld r rd
               = gal_data_alloc P h ?final
                (if size_f ld > 1 then ndim ld else ndim rd)
                (if size_f ld > 1 then dsize ld else dsize rd)
                (if size_f ld > 1 then wcs ld else wcs rd) False
                (if minmapsize ld < minmapsize rd then minmapsize ld else minmapsize rd)"
      by (auto simp add: binary_output_def Let_def)
    with bo have oh: "(out, h1) = gal_data_alloc P h ?final
                (if size_f ld > 1 then ndim ld else ndim rd)
                (if size_f ld > 1 then dsize ld else dsize rd)
                (if size_f ld > 1 then wcs ld else wcs rd) False
                (if minmapsize ld < minmapsize rd then minmapsize ld else minmapsize rd)"
      by simp
    then have o: "out = next_addr h"
      by (simp add: gal_data_alloc_def)
    from oh have h1: "h1 = snd (gal_data_alloc P h ?final
                (if size_f ld > 1 then ndim ld else ndim rd)
                (if size_f ld > 1 then dsize ld else dsize rd)
                (if size_f ld > 1 then wcs ld else wcs rd) False
                (if minmapsize ld < minmapsize rd then minmapsize ld else minmapsize rd))"
      by (metis snd_conv)
    have "prod_list (if 1 < size_f ld then dsize ld else dsize rd)
            = max (size_f ld) (size_f rd)"
      using sz(2) len by (simp split: if_splits)
    with o h1 l r fresh show ?thesis
      by (simp add: gal_data_alloc_def)
  qed
qed

lemma binary_result:
  assumes l: "objs h l = Some ld" and r: "objs h r = Some rd" and ne: "l \<noteq> r"
    and wf: "wf_data ld" "wf_data rd" "wf_heap h"
    and ty: "float_ctype (type ld) = Some LT" "float_ctype (type rd) = Some RT"
    and compat: "(GAL_DATA_ARITH_NUMOK \<in> flags \<and> (size_f ld = 1 \<or> size_f rd = 1))
                 \<or> \<not> gal_data_dsize_is_different ld rd"
  shows "\<exists>out h1 h' od OT.
           binary_output P h flags l ld r rd = (out, h1)
           \<and> data_arithmetic_binary_function_f P h GAL_DATA_OPERATOR_POW flags l r = Inr (out, h')
           \<and> objs h' out = Some od
           \<and> next_addr h' = next_addr h1
           \<and> type od = gal_data_out_type ld rd
           \<and> float_ctype (type od) = Some OT
           \<and> size_f od = max (size_f ld) (size_f rd)
           \<and> ndim od = (if out = l then ndim ld else if out = r then ndim rd
                         else if 1 < size_f ld then ndim ld else ndim rd)
           \<and> dsize od = (if out = l then dsize ld else if out = r then dsize rd
                          else if 1 < size_f ld then dsize ld else dsize rd)
           \<and> array od = binfunc_array (binfunc_elem P OT RT LT (c_pow P)) (array ld) (array rd)
                          (size_f od)
           \<and> (GAL_DATA_ARITH_FREE \<in> flags \<longrightarrow>
                 (out \<noteq> l \<longrightarrow> objs h' l = None) \<and> (out \<noteq> r \<longrightarrow> objs h' r = None))"
proof -
  obtain out h1 where bo: "binary_output P h flags l ld r rd = (out, h1)"
    by (cases "binary_output P h flags l ld r rd")
  from binary_output_result [OF l r wf compat bo]
  obtain od1 where od1: "objs h1 out = Some od1" "objs h1 l = Some ld" "objs h1 r = Some rd"
    "type od1 = gal_data_out_type ld rd"
    "size_f od1 = max (size_f ld) (size_f rd)"
    "length (array od1) = size_f od1"
    "ndim od1 = (if out = l then ndim ld else if out = r then ndim rd
                         else if 1 < size_f ld then ndim ld else ndim rd)"
    "dsize od1 = (if out = l then dsize ld else if out = r then dsize rd
                          else if 1 < size_f ld then dsize ld else dsize rd)"
    by blast
  obtain OT where OT: "float_ctype (type od1) = Some OT"
    using float_ctype_out_type [of ld rd] od1(4) by auto
  have len: "length (array ld) = size_f ld" "length (array rd) = size_f rd"
    and pos: "0 < size_f ld" "0 < size_f rd"
    using wf by (simp_all add: wf_data_def)
  define res where "res = binfunc_array (binfunc_elem P OT RT LT (c_pow P)) (array ld) (array rd)
                          (size_f od1)"
  define h2 where "h2 = set_array h1 out res"
  have run: "BINFUNC_F_OPERATOR_SET P (c_pow P) l r out h1 = Inr h2"
    unfolding h2_def res_def
    by (rule BINFUNC_F_OPERATOR_SET_result [OF od1(2) od1(3) od1(1) len od1(6) pos od1(5)
          binary_sizes(1) [OF wf(1) wf(2) compat] ty OT])
  have l2: "\<exists>a. objs h2 l = Some a" and r2: "\<exists>b. objs h2 r = Some b"
    using od1 by (simp_all add: h2_def objs_set_array)
  then obtain a b where ab: "objs h2 l = Some a" "objs h2 r = Some b"
    by blast
  from binary_clean_up_result [OF ab ne, of flags out]
  obtain h' where h': "binary_clean_up flags l r out h2 = Inr (out, h')"
    "next_addr h' = next_addr h2" "objs h' out = objs h2 out"
    "GAL_DATA_ARITH_FREE \<in> flags \<longrightarrow>
       (out \<noteq> l \<longrightarrow> objs h' l = None) \<and> (out \<noteq> r \<longrightarrow> objs h' r = None)"
    by blast
  have chk: "check_float_input h l GAL_DATA_OPERATOR_POW ''first'' = Inr h"
    "check_float_input h r GAL_DATA_OPERATOR_POW ''second'' = Inr h"
    using l r ty by (simp_all add: check_float_input_ok)
  have call: "data_arithmetic_binary_function_f P h GAL_DATA_OPERATOR_POW flags l r = Inr (out, h')"
    using compat by (simp add: data_arithmetic_binary_function_f_def l r chk bo run h')
  have out2: "objs h2 out = Some (od1\<lparr>array := res\<rparr>)"
    using od1(1) by (simp add: h2_def objs_set_array)
  show ?thesis
    using bo call h' out2 od1 OT
    by (intro exI [of _ out] exI [of _ h1] exI [of _ h'] exI [of _ "od1\<lparr>array := res\<rparr>"]
        exI [of _ OT])
       (simp add: res_def h2_def next_addr_set_array)
qed

text \<open>
  Claim C10. Before anything else \<^verbatim>\<open>data_arithmetic_binary_function_f\<close> compares the
  dimensions of its operands. Operands whose dimensions differ are rejected with the size
  error, in the store the call started in, unless the flag \<^verbatim>\<open>GAL_DATA_ARITH_NUMOK\<close> is
  set and one of the operands has a single element: without the flag every difference is
  rejected, a single element against a larger operand included, and a call that returns
  for operands of different dimensions was made with the flag and has an operand with a
  single element.
\<close>

theorem binary_dimensions_checked_first:
  assumes l: "objs h l = Some ld" and r: "objs h r = Some rd"
  shows "(gal_data_dsize_is_different ld rd
            \<and> \<not> (GAL_DATA_ARITH_NUMOK \<in> flags \<and> (size_f ld = 1 \<or> size_f rd = 1)) \<longrightarrow>
            data_arithmetic_binary_function_f P h operator flags l r = Inl (ShapeMismatch, h))
       \<and> (\<forall>out h'.
            data_arithmetic_binary_function_f P h operator flags l r = Inr (out, h')
            \<and> gal_data_dsize_is_different ld rd \<longrightarrow>
            GAL_DATA_ARITH_NUMOK \<in> flags \<and> (size_f ld = 1 \<or> size_f rd = 1))"
proof -
  have rej: "data_arithmetic_binary_function_f P h operator flags l r = Inl (ShapeMismatch, h)"
    if "gal_data_dsize_is_different ld rd"
      "\<not> (GAL_DATA_ARITH_NUMOK \<in> flags \<and> (size_f ld = 1 \<or> size_f rd = 1))"
    using that by (simp add: data_arithmetic_binary_function_f_def l r)
  show ?thesis
  proof (rule conjI)
    show "gal_data_dsize_is_different ld rd
            \<and> \<not> (GAL_DATA_ARITH_NUMOK \<in> flags \<and> (size_f ld = 1 \<or> size_f rd = 1)) \<longrightarrow>
            data_arithmetic_binary_function_f P h operator flags l r = Inl (ShapeMismatch, h)"
      using rej by blast
  next
    show "\<forall>out h'.
            data_arithmetic_binary_function_f P h operator flags l r = Inr (out, h')
            \<and> gal_data_dsize_is_different ld rd \<longrightarrow>
            GAL_DATA_ARITH_NUMOK \<in> flags \<and> (size_f ld = 1 \<or> size_f rd = 1)"
    proof (intro allI impI)
    fix out h'
    assume a: "data_arithmetic_binary_function_f P h operator flags l r = Inr (out, h')
            \<and> gal_data_dsize_is_different ld rd"
    show "GAL_DATA_ARITH_NUMOK \<in> flags \<and> (size_f ld = 1 \<or> size_f rd = 1)"
    proof (rule ccontr)
      assume "\<not> (GAL_DATA_ARITH_NUMOK \<in> flags \<and> (size_f ld = 1 \<or> size_f rd = 1))"
      with a rej have "data_arithmetic_binary_function_f P h operator flags l r
                         = Inl (ShapeMismatch, h)"
        by blast
      with a show False
        by simp
    qed
    qed
  qed
qed

theorem binary_dimensions_checked_first_witness:
  "data_arithmetic_binary_function_f int_platform heap_1_5 GAL_DATA_OPERATOR_POW {} 0 1
     = Inl (ShapeMismatch, heap_1_5)
   \<and> (\<exists>out h'. data_arithmetic_binary_function_f int_platform heap_1_5 GAL_DATA_OPERATOR_POW
                  {GAL_DATA_ARITH_NUMOK} 0 1 = Inr (out, h'))
   \<and> GAL_DATA_ARITH_NUMOK \<in> {GAL_DATA_ARITH_NUMOK}
   \<and> size_f (mk_data GAL_DATA_TYPE_FLOAT [1] [2 :: int]) = 1"
proof -
  have 1: "data_arithmetic_binary_function_f int_platform heap_1_5 GAL_DATA_OPERATOR_POW {} 0 1
     = Inl (ShapeMismatch, heap_1_5)"
    using binary_dimensions_checked_first [OF heap_1_5_facts(1) heap_1_5_facts(2),
        where P = int_platform and operator = GAL_DATA_OPERATOR_POW and flags = "{}"]
      heap_1_5_facts(10)
    by blast
  have 2: "\<exists>out h'. data_arithmetic_binary_function_f int_platform heap_1_5 GAL_DATA_OPERATOR_POW
                  {GAL_DATA_ARITH_NUMOK} 0 1 = Inr (out, h')"
    using binary_result [OF heap_1_5_facts(1) heap_1_5_facts(2) _ heap_1_5_facts(4)
        heap_1_5_facts(5) heap_1_5_facts(3) heap_1_5_facts(6) heap_1_5_facts(7),
        where P = int_platform and flags = "{GAL_DATA_ARITH_NUMOK}"]
      heap_1_5_facts(8)
    by simp blast
  from 2 obtain out h' where
    3: "data_arithmetic_binary_function_f int_platform heap_1_5 GAL_DATA_OPERATOR_POW
                  {GAL_DATA_ARITH_NUMOK} 0 1 = Inr (out, h')"
    by blast
  have "GAL_DATA_ARITH_NUMOK \<in> {GAL_DATA_ARITH_NUMOK}
        \<and> (size_f (mk_data GAL_DATA_TYPE_FLOAT [1] [2 :: int]) = 1
           \<or> size_f (mk_data GAL_DATA_TYPE_FLOAT [5] [1, 2, 3, 4, 5 :: int]) = 1)"
    using binary_dimensions_checked_first [OF heap_1_5_facts(1) heap_1_5_facts(2),
        where P = int_platform and operator = GAL_DATA_OPERATOR_POW
          and flags = "{GAL_DATA_ARITH_NUMOK}"] 3 heap_1_5_facts(10)
    by blast
  with 1 2 heap_1_5_facts(8) show ?thesis
    by blast
qed

lemma binary_output_chosen:
  assumes l: "objs h l = Some ld" and r: "objs h r = Some rd" and ne: "l \<noteq> r"
    and wf: "wf_heap h"
    and bo: "binary_output P h flags l ld r rd = (out, h1)"
  shows "(out = l \<longleftrightarrow> GAL_DATA_ARITH_INPLACE \<in> flags \<and> type ld = gal_data_out_type ld rd
                        \<and> size_f ld = max (size_f ld) (size_f rd))
       \<and> (out = r \<longleftrightarrow> GAL_DATA_ARITH_INPLACE \<in> flags
                        \<and> \<not> (type ld = gal_data_out_type ld rd
                              \<and> size_f ld = max (size_f ld) (size_f rd))
                        \<and> type rd = gal_data_out_type ld rd
                        \<and> size_f rd = max (size_f ld) (size_f rd))
       \<and> (out \<noteq> l \<and> out \<noteq> r \<longrightarrow>
             out = next_addr h \<and> objs h out = None \<and> next_addr h1 = Suc (next_addr h))
       \<and> (out = l \<or> out = r \<longrightarrow> h1 = h)"
proof -
  let ?final = "gal_data_out_type ld rd"
  let ?n = "if size_f ld > size_f rd then size_f ld else size_f rd"
  have mx: "?n = max (size_f ld) (size_f rd)"
    by simp
  have fresh: "l \<noteq> next_addr h" "r \<noteq> next_addr h" "objs h (next_addr h) = None"
    using gal_data_alloc_fresh [OF wf l] gal_data_alloc_fresh [OF wf r] wf
    by (simp_all add: wf_heap_def)
  consider (L) "GAL_DATA_ARITH_INPLACE \<in> flags \<and> type ld = ?final \<and> ?n = size_f ld"
    | (R) "\<not> (GAL_DATA_ARITH_INPLACE \<in> flags \<and> type ld = ?final \<and> ?n = size_f ld)"
          "GAL_DATA_ARITH_INPLACE \<in> flags \<and> type rd = ?final \<and> ?n = size_f rd"
    | (N) "\<not> (GAL_DATA_ARITH_INPLACE \<in> flags \<and> type ld = ?final \<and> ?n = size_f ld)"
          "\<not> (GAL_DATA_ARITH_INPLACE \<in> flags \<and> type rd = ?final \<and> ?n = size_f rd)"
    by blast
  then show ?thesis
  proof cases
    case L
    then have "binary_output P h flags l ld r rd = (l, h)"
      by (auto simp add: binary_output_def Let_def)
    with bo have "out = l" "h1 = h"
      by simp_all
    with L ne show ?thesis
      unfolding mx by auto
  next
    case R
    then have "binary_output P h flags l ld r rd = (r, h)"
      by (auto simp add: binary_output_def Let_def)
    with bo have "out = r" "h1 = h"
      by simp_all
    with R ne show ?thesis
      unfolding mx by auto
  next
    case N
    then have "binary_output P h flags l ld r rd
               = gal_data_alloc P h ?final
                (if size_f ld > 1 then ndim ld else ndim rd)
                (if size_f ld > 1 then dsize ld else dsize rd)
                (if size_f ld > 1 then wcs ld else wcs rd) False
                (if minmapsize ld < minmapsize rd then minmapsize ld else minmapsize rd)"
      by (auto simp add: binary_output_def Let_def)
    with bo have "out = next_addr h" "next_addr h1 = Suc (next_addr h)"
      by (auto simp add: gal_data_alloc_def)
    with N fresh show ?thesis
      unfolding mx by auto
  qed
qed

text \<open>
  Claim C6. A call of \<^verbatim>\<open>data_arithmetic_binary_function_f\<close> with
  \<^verbatim>\<open>GAL_DATA_ARITH_INPLACE\<close>, on two distinct well-formed floating-point operands that
  pass the check on the dimensions, returns the left operand exactly when the kind of the
  left operand is the kind of the output and its size is the size of the output; it
  returns the right operand exactly when the left one does not qualify and the right one
  does; otherwise the output is a new structure, at an address that was free before.
  In the two cases of reuse nothing is allocated.
\<close>

theorem binary_in_place_reuse:
  assumes l: "objs h l = Some ld" and r: "objs h r = Some rd" and ne: "l \<noteq> r"
    and wf: "wf_data ld" "wf_data rd" "wf_heap h"
    and ty: "float_ctype (type ld) = Some LT" "float_ctype (type rd) = Some RT"
    and compat: "(GAL_DATA_ARITH_NUMOK \<in> flags \<and> (size_f ld = 1 \<or> size_f rd = 1))
                 \<or> \<not> gal_data_dsize_is_different ld rd"
    and inplace: "GAL_DATA_ARITH_INPLACE \<in> flags"
  shows "\<exists>out h'.
           data_arithmetic_binary_function_f P h GAL_DATA_OPERATOR_POW flags l r = Inr (out, h')
           \<and> (out = l \<longleftrightarrow> type ld = gal_data_out_type ld rd
                            \<and> size_f ld = max (size_f ld) (size_f rd))
           \<and> (out = r \<longleftrightarrow> \<not> (type ld = gal_data_out_type ld rd
                                  \<and> size_f ld = max (size_f ld) (size_f rd))
                            \<and> type rd = gal_data_out_type ld rd
                            \<and> size_f rd = max (size_f ld) (size_f rd))
           \<and> (out \<noteq> l \<and> out \<noteq> r \<longrightarrow>
                 out = next_addr h \<and> objs h out = None \<and> next_addr h' = Suc (next_addr h))
           \<and> (out = l \<or> out = r \<longrightarrow> next_addr h' = next_addr h)"
proof -
  from binary_result [OF l r ne wf ty compat, of P]
  obtain out h1 h' where
    bo: "binary_output P h flags l ld r rd = (out, h1)"
    and call: "data_arithmetic_binary_function_f P h GAL_DATA_OPERATOR_POW flags l r
                 = Inr (out, h')"
    and nx: "next_addr h' = next_addr h1"
    by blast
  from binary_output_chosen [OF l r ne wf(3) bo] inplace call nx
  show ?thesis
    by (intro exI [of _ out] exI [of _ h']) auto
qed

theorem binary_in_place_reuse_witness:
  "(\<exists>h'. data_arithmetic_binary_function_f int_platform heap_2_2 GAL_DATA_OPERATOR_POW
            {GAL_DATA_ARITH_INPLACE} 0 1 = Inr (0, h') \<and> next_addr h' = 2)
   \<and> (\<exists>h'. data_arithmetic_binary_function_f int_platform heap_1_5 GAL_DATA_OPERATOR_POW
            {GAL_DATA_ARITH_INPLACE, GAL_DATA_ARITH_NUMOK} 0 1 = Inr (1, h') \<and> next_addr h' = 2)
   \<and> (\<exists>h'. data_arithmetic_binary_function_f int_platform heap_5_1 GAL_DATA_OPERATOR_POW
            {GAL_DATA_ARITH_INPLACE, GAL_DATA_ARITH_NUMOK} 0 1 = Inr (2, h') \<and> next_addr h' = 3)"
proof (intro conjI)
  show "\<exists>h'. data_arithmetic_binary_function_f int_platform heap_2_2 GAL_DATA_OPERATOR_POW
            {GAL_DATA_ARITH_INPLACE} 0 1 = Inr (0, h') \<and> next_addr h' = 2"
    using binary_in_place_reuse [of heap_2_2 0 "mk_data GAL_DATA_TYPE_FLOAT [2] [2, 3]"
        1 "mk_data GAL_DATA_TYPE_FLOAT [2] [3, 2]" c_float c_float "{GAL_DATA_ARITH_INPLACE}"
        int_platform]
    by (simp add: heap_2_2_def mk_simps) (auto simp add: mk_heap_def)
next
  show "\<exists>h'. data_arithmetic_binary_function_f int_platform heap_1_5 GAL_DATA_OPERATOR_POW
            {GAL_DATA_ARITH_INPLACE, GAL_DATA_ARITH_NUMOK} 0 1 = Inr (1, h') \<and> next_addr h' = 2"
    using binary_in_place_reuse [of heap_1_5 0 "mk_data GAL_DATA_TYPE_FLOAT [1] [2]"
        1 "mk_data GAL_DATA_TYPE_FLOAT [5] [1, 2, 3, 4, 5]" c_float c_float
        "{GAL_DATA_ARITH_INPLACE, GAL_DATA_ARITH_NUMOK}" int_platform]
    by (simp add: heap_1_5_def mk_simps) (auto simp add: mk_heap_def)
next
  show "\<exists>h'. data_arithmetic_binary_function_f int_platform heap_5_1 GAL_DATA_OPERATOR_POW
            {GAL_DATA_ARITH_INPLACE, GAL_DATA_ARITH_NUMOK} 0 1 = Inr (2, h') \<and> next_addr h' = 3"
    using binary_in_place_reuse [of heap_5_1 0 "mk_data GAL_DATA_TYPE_FLOAT [5] [1, 2, 3, 4, 5]"
        1 "mk_data GAL_DATA_TYPE_DOUBLE [1] [2]" c_float c_double
        "{GAL_DATA_ARITH_INPLACE, GAL_DATA_ARITH_NUMOK}" int_platform]
    by (simp add: heap_5_1_def mk_simps) (auto simp add: mk_heap_def)
qed

text \<open>
  Claim C2, amended. For two distinct well-formed floating-point operands that pass the
  check on the dimensions, the output of \<^verbatim>\<open>data_arithmetic_binary_function_f\<close> has the
  wider of the two kinds (\<^verbatim>\<open>double\<close> if one of them is \<^verbatim>\<open>double\<close>, else
  \<^verbatim>\<open>float\<close>) and the shape of an operand with more than one element. When both
  operands have a single element, the output has the shape of the left operand only if
  the left operand itself is the output (in-place output is wanted and the kind of the
  left operand is the kind of the output); in every other case it has the shape of the
  right operand.
\<close>

theorem binary_output_kind_and_shape:
  assumes l: "objs h l = Some ld" and r: "objs h r = Some rd" and ne: "l \<noteq> r"
    and wf: "wf_data ld" "wf_data rd" "wf_heap h"
    and ty: "float_ctype (type ld) = Some LT" "float_ctype (type rd) = Some RT"
    and compat: "(GAL_DATA_ARITH_NUMOK \<in> flags \<and> (size_f ld = 1 \<or> size_f rd = 1))
                 \<or> \<not> gal_data_dsize_is_different ld rd"
  shows "\<exists>out h' od.
           data_arithmetic_binary_function_f P h GAL_DATA_OPERATOR_POW flags l r = Inr (out, h')
           \<and> objs h' out = Some od
           \<and> type od = (if type ld = GAL_DATA_TYPE_DOUBLE \<or> type rd = GAL_DATA_TYPE_DOUBLE
                         then GAL_DATA_TYPE_DOUBLE else GAL_DATA_TYPE_FLOAT)
           \<and> (1 < size_f ld \<longrightarrow> ndim od = ndim ld \<and> dsize od = dsize ld)
           \<and> (1 < size_f rd \<longrightarrow> ndim od = ndim rd \<and> dsize od = dsize rd)
           \<and> (size_f ld = 1 \<and> size_f rd = 1 \<longrightarrow>
                 (if GAL_DATA_ARITH_INPLACE \<in> flags \<and> type ld = type od
                  then out = l \<and> ndim od = ndim ld \<and> dsize od = dsize ld
                  else ndim od = ndim rd \<and> dsize od = dsize rd))"
proof -
  from binary_result [OF l r ne wf ty compat, of P]
  obtain out h1 h' od where
    bo: "binary_output P h flags l ld r rd = (out, h1)"
    and call: "data_arithmetic_binary_function_f P h GAL_DATA_OPERATOR_POW flags l r
                 = Inr (out, h')"
    and od: "objs h' out = Some od" "type od = gal_data_out_type ld rd"
      "size_f od = max (size_f ld) (size_f rd)"
      "ndim od = (if out = l then ndim ld else if out = r then ndim rd
                         else if 1 < size_f ld then ndim ld else ndim rd)"
      "dsize od = (if out = l then dsize ld else if out = r then dsize rd
                          else if 1 < size_f ld then dsize ld else dsize rd)"
    by blast
  note ch = binary_output_chosen [OF l r ne wf(3) bo]
  have pos: "0 < size_f ld" "0 < size_f rd"
    using wf by (simp_all add: wf_data_def)
  have same: "ndim ld = ndim rd \<and> dsize ld = dsize rd" if "1 < size_f ld" "1 < size_f rd"
    using that compat by (auto simp add: gal_data_dsize_is_different_def)
  have big_l: "ndim od = ndim ld \<and> dsize od = dsize ld" if b: "1 < size_f ld"
  proof (cases "out = r")
    case True
    with ch have "size_f rd = max (size_f ld) (size_f rd)"
      by blast
    with b have "1 < size_f rd"
      by simp
    with same b True ne od show ?thesis
      by simp
  next
    case False
    with b od show ?thesis
      by simp
  qed
  have big_r: "ndim od = ndim rd \<and> dsize od = dsize rd" if b: "1 < size_f rd"
  proof (cases "out = l")
    case True
    with ch have "size_f ld = max (size_f ld) (size_f rd)"
      by blast
    with b have "1 < size_f ld"
      by simp
    with same b True od show ?thesis
      by simp
  next
    case False
    show ?thesis
    proof (cases "1 < size_f ld")
      case True
      with same b big_l show ?thesis
        by simp
    next
      case nb: False
      with False od show ?thesis
        by simp
    qed
  qed
  have both: "if GAL_DATA_ARITH_INPLACE \<in> flags \<and> type ld = type od
              then out = l \<and> ndim od = ndim ld \<and> dsize od = dsize ld
              else ndim od = ndim rd \<and> dsize od = dsize rd"
    if s: "size_f ld = 1 \<and> size_f rd = 1"
  proof (cases "GAL_DATA_ARITH_INPLACE \<in> flags \<and> type ld = type od")
    case True
    with s ch od(2) have "out = l"
      by simp
    with True od show ?thesis
      by simp
  next
    case False
    with s ch od(2) have "out \<noteq> l"
      by auto
    with False s od show ?thesis
      by simp
  qed
  from call od(1) od(2) big_l big_r both show ?thesis
    by (intro exI [of _ out] exI [of _ h'] exI [of _ od])
       (simp add: gal_data_out_type_def)
qed

theorem binary_output_kind_and_shape_witness:
  "(\<exists>out h' od.
      data_arithmetic_binary_function_f int_platform heap_1_5 GAL_DATA_OPERATOR_POW
        {GAL_DATA_ARITH_NUMOK} 0 1 = Inr (out, h')
      \<and> objs h' out = Some od \<and> type od = GAL_DATA_TYPE_FLOAT \<and> dsize od = [5])
   \<and> (\<exists>out h' od.
      data_arithmetic_binary_function_f int_platform heap_1_11 GAL_DATA_OPERATOR_POW
        {GAL_DATA_ARITH_NUMOK} 0 1 = Inr (out, h')
      \<and> objs h' out = Some od \<and> type od = GAL_DATA_TYPE_DOUBLE \<and> dsize od = [1, 1])"
proof (rule conjI)
  show "\<exists>out h' od.
      data_arithmetic_binary_function_f int_platform heap_1_5 GAL_DATA_OPERATOR_POW
        {GAL_DATA_ARITH_NUMOK} 0 1 = Inr (out, h')
      \<and> objs h' out = Some od \<and> type od = GAL_DATA_TYPE_FLOAT \<and> dsize od = [5]"
    using binary_output_kind_and_shape [of heap_1_5 0 "mk_data GAL_DATA_TYPE_FLOAT [1] [2]"
        1 "mk_data GAL_DATA_TYPE_FLOAT [5] [1, 2, 3, 4, 5]" c_float c_float
        "{GAL_DATA_ARITH_NUMOK}" int_platform]
    by (simp add: heap_1_5_def mk_simps) blast
next
  show "\<exists>out h' od.
      data_arithmetic_binary_function_f int_platform heap_1_11 GAL_DATA_OPERATOR_POW
        {GAL_DATA_ARITH_NUMOK} 0 1 = Inr (out, h')
      \<and> objs h' out = Some od \<and> type od = GAL_DATA_TYPE_DOUBLE \<and> dsize od = [1, 1]"
    using binary_output_kind_and_shape [of heap_1_11 0 "mk_data GAL_DATA_TYPE_FLOAT [1] [2]"
        1 "mk_data GAL_DATA_TYPE_DOUBLE [1, 1] [3]" c_float c_double
        "{GAL_DATA_ARITH_NUMOK}" int_platform]
    by (simp add: heap_1_11_def mk_simps) blast
qed

text \<open>
  As stated, C2 fails when both operands have a single element and different shapes: for
  a left operand of shape (1) and a right operand of shape (1, 1) the output has the
  shape (1, 1) of the right operand.
\<close>

lemmas binary_unfold =
  data_arithmetic_binary_function_f_def binary_output_def binary_clean_up_def
  BINFUNC_F_OPERATOR_SET_def BINFUNC_RUN_FUNCTION_def binfunc_rhs_def binfunc_elem_def
  check_float_input_def float_ctype_def gal_data_out_type_def gal_data_dsize_is_different_def
  gal_data_alloc_def gal_data_free_def assign_def load_def store_def do_while.simps
  mk_heap_def mk_data_def int_platform_def c_convert_def int_convert_def

theorem binary_scalars_right_shape:
  "(case data_arithmetic_binary_function_f int_platform heap_1_11 GAL_DATA_OPERATOR_POW
           {GAL_DATA_ARITH_NUMOK} 0 1 of
      Inl e \<Rightarrow> False
    | Inr (out, h') \<Rightarrow>
        map_option dsize (objs h' out) = Some [1, 1]
        \<and> map_option dsize (objs heap_1_11 0) = Some [1]
        \<and> map_option size_f (objs heap_1_11 0) = Some 1
        \<and> map_option size_f (objs heap_1_11 1) = Some 1)"
  by (simp add: heap_1_11_def binary_unfold Let_def)

text \<open>
  Claim C4, amended. On two distinct well-formed floating-point operands
  \<^verbatim>\<open>data_arithmetic_binary_function_f\<close> succeeds exactly when the operands have the same
  dimensions, or the flag \<^verbatim>\<open>GAL_DATA_ARITH_NUMOK\<close> is set and one of them has a single
  element; otherwise it stops with the size error. When it succeeds, the output has as
  many elements as the larger operand and the shape of an operand with more than one
  element, and element \<open>i\<close> of the output is the function applied to the elements \<open>i\<close>
  of the operands, the only element of an operand with a single element being paired with
  every element of the other.
\<close>

theorem binary_broadcast:
  assumes l: "objs h l = Some ld" and r: "objs h r = Some rd" and ne: "l \<noteq> r"
    and wf: "wf_data ld" "wf_data rd" "wf_heap h"
    and ty: "float_ctype (type ld) = Some LT" "float_ctype (type rd) = Some RT"
  shows "((GAL_DATA_ARITH_NUMOK \<in> flags \<and> (size_f ld = 1 \<or> size_f rd = 1))
            \<or> \<not> gal_data_dsize_is_different ld rd \<longrightarrow>
          (\<exists>out h' od OT.
             data_arithmetic_binary_function_f P h GAL_DATA_OPERATOR_POW flags l r
               = Inr (out, h')
             \<and> objs h' out = Some od
             \<and> type od = gal_data_out_type ld rd
             \<and> float_ctype (type od) = Some OT
             \<and> size_f od = max (size_f ld) (size_f rd)
             \<and> (1 < size_f ld \<longrightarrow> dsize od = dsize ld)
             \<and> (1 < size_f rd \<longrightarrow> dsize od = dsize rd)
             \<and> array od = binfunc_array (binfunc_elem P OT RT LT (c_pow P))
                            (array ld) (array rd) (max (size_f ld) (size_f rd))))
       \<and> (\<not> ((GAL_DATA_ARITH_NUMOK \<in> flags \<and> (size_f ld = 1 \<or> size_f rd = 1))
               \<or> \<not> gal_data_dsize_is_different ld rd) \<longrightarrow>
          data_arithmetic_binary_function_f P h GAL_DATA_OPERATOR_POW flags l r
            = Inl (ShapeMismatch, h))"
proof (rule conjI)
  show "\<not> ((GAL_DATA_ARITH_NUMOK \<in> flags \<and> (size_f ld = 1 \<or> size_f rd = 1))
               \<or> \<not> gal_data_dsize_is_different ld rd) \<longrightarrow>
          data_arithmetic_binary_function_f P h GAL_DATA_OPERATOR_POW flags l r
            = Inl (ShapeMismatch, h)"
    by (simp add: data_arithmetic_binary_function_f_def l r)
next
  show "(GAL_DATA_ARITH_NUMOK \<in> flags \<and> (size_f ld = 1 \<or> size_f rd = 1))
            \<or> \<not> gal_data_dsize_is_different ld rd \<longrightarrow>
          (\<exists>out h' od OT.
             data_arithmetic_binary_function_f P h GAL_DATA_OPERATOR_POW flags l r
               = Inr (out, h')
             \<and> objs h' out = Some od
             \<and> type od = gal_data_out_type ld rd
             \<and> float_ctype (type od) = Some OT
             \<and> size_f od = max (size_f ld) (size_f rd)
             \<and> (1 < size_f ld \<longrightarrow> dsize od = dsize ld)
             \<and> (1 < size_f rd \<longrightarrow> dsize od = dsize rd)
             \<and> array od = binfunc_array (binfunc_elem P OT RT LT (c_pow P))
                            (array ld) (array rd) (max (size_f ld) (size_f rd)))"
  proof
    assume compat: "(GAL_DATA_ARITH_NUMOK \<in> flags \<and> (size_f ld = 1 \<or> size_f rd = 1))
            \<or> \<not> gal_data_dsize_is_different ld rd"
    from binary_result [OF l r ne wf ty compat, of P]
    obtain out h1 h' od OT where
      bo: "binary_output P h flags l ld r rd = (out, h1)"
      and call: "data_arithmetic_binary_function_f P h GAL_DATA_OPERATOR_POW flags l r
                   = Inr (out, h')"
      and od: "objs h' out = Some od" "type od = gal_data_out_type ld rd"
        "float_ctype (type od) = Some OT"
        "size_f od = max (size_f ld) (size_f rd)"
        "dsize od = (if out = l then dsize ld else if out = r then dsize rd
                            else if 1 < size_f ld then dsize ld else dsize rd)"
        "array od = binfunc_array (binfunc_elem P OT RT LT (c_pow P)) (array ld) (array rd)
                      (size_f od)"
      by blast
    note ch = binary_output_chosen [OF l r ne wf(3) bo]
    have same: "dsize ld = dsize rd" if "1 < size_f ld" "1 < size_f rd"
      using that compat by (auto simp add: gal_data_dsize_is_different_def)
    have big_l: "dsize od = dsize ld" if b: "1 < size_f ld"
    proof (cases "out = r")
      case True
      with ch have "size_f rd = max (size_f ld) (size_f rd)"
        by blast
      with b have "1 < size_f rd"
        by simp
      with same b True ne od show ?thesis
        by simp
    next
      case False
      with b od show ?thesis
        by simp
    qed
    have big_r: "dsize od = dsize rd" if b: "1 < size_f rd"
    proof (cases "out = l")
      case True
      with ch have "size_f ld = max (size_f ld) (size_f rd)"
        by blast
      with b have "1 < size_f ld"
        by simp
      with same b True od show ?thesis
        by simp
    next
      case False
      show ?thesis
      proof (cases "1 < size_f ld")
        case True
        with same b big_l show ?thesis
          by simp
      next
        case nb: False
        with False od show ?thesis
          by simp
      qed
    qed
    from call od big_l big_r
    show "\<exists>out h' od OT.
             data_arithmetic_binary_function_f P h GAL_DATA_OPERATOR_POW flags l r
               = Inr (out, h')
             \<and> objs h' out = Some od
             \<and> type od = gal_data_out_type ld rd
             \<and> float_ctype (type od) = Some OT
             \<and> size_f od = max (size_f ld) (size_f rd)
             \<and> (1 < size_f ld \<longrightarrow> dsize od = dsize ld)
             \<and> (1 < size_f rd \<longrightarrow> dsize od = dsize rd)
             \<and> array od = binfunc_array (binfunc_elem P OT RT LT (c_pow P))
                            (array ld) (array rd) (max (size_f ld) (size_f rd))"
      by (intro exI [of _ out] exI [of _ h'] exI [of _ od] exI [of _ OT]) simp
  qed
qed

theorem binary_broadcast_witness:
  "(\<exists>out h' od.
      data_arithmetic_binary_function_f int_platform heap_1_5 GAL_DATA_OPERATOR_POW
        {GAL_DATA_ARITH_NUMOK} 0 1 = Inr (out, h')
      \<and> objs h' out = Some od \<and> dsize od = [5]
      \<and> array od = [Some 2, Some 4, Some 8, Some 16, Some 32])
   \<and> data_arithmetic_binary_function_f int_platform heap_3_5 GAL_DATA_OPERATOR_POW
        {GAL_DATA_ARITH_NUMOK} 0 1 = Inl (ShapeMismatch, heap_3_5)"
proof (rule conjI)
  show "\<exists>out h' od.
      data_arithmetic_binary_function_f int_platform heap_1_5 GAL_DATA_OPERATOR_POW
        {GAL_DATA_ARITH_NUMOK} 0 1 = Inr (out, h')
      \<and> objs h' out = Some od \<and> dsize od = [5]
      \<and> array od = [Some 2, Some 4, Some 8, Some 16, Some 32]"
    using binary_broadcast [of heap_1_5 0 "mk_data GAL_DATA_TYPE_FLOAT [1] [2]"
        1 "mk_data GAL_DATA_TYPE_FLOAT [5] [1, 2, 3, 4, 5]" c_float c_float
        "{GAL_DATA_ARITH_NUMOK}" int_platform]
    by (simp add: heap_1_5_def mk_simps) (auto simp add: binfunc_array_1_5)
next
  show "data_arithmetic_binary_function_f int_platform heap_3_5 GAL_DATA_OPERATOR_POW
        {GAL_DATA_ARITH_NUMOK} 0 1 = Inl (ShapeMismatch, heap_3_5)"
    using binary_broadcast [of heap_3_5 0 "mk_data GAL_DATA_TYPE_FLOAT [3] [1, 2, 3]"
        1 "mk_data GAL_DATA_TYPE_FLOAT [5] [1, 2, 3, 4, 5]" c_float c_float
        "{GAL_DATA_ARITH_NUMOK}" int_platform]
    by (simp add: heap_3_5_def mk_simps)
qed

text \<open>
  As stated, C4 fails without the flag \<^verbatim>\<open>GAL_DATA_ARITH_NUMOK\<close>: an operand with one
  element against an operand of shape (5) is rejected with the size error. It also fails
  for operands with equally many elements and different shapes, here (2, 3) and (3, 2).
\<close>

theorem binary_scalar_rejected_without_numok:
  "data_arithmetic_binary_function_f int_platform heap_1_5 GAL_DATA_OPERATOR_POW {} 0 1
     = Inl (ShapeMismatch, heap_1_5)
   \<and> map_option size_f (objs heap_1_5 0) = Some 1
   \<and> data_arithmetic_binary_function_f int_platform heap_23_32 GAL_DATA_OPERATOR_POW
       {GAL_DATA_ARITH_NUMOK} 0 1
     = Inl (ShapeMismatch, heap_23_32)
   \<and> map_option size_f (objs heap_23_32 0) = map_option size_f (objs heap_23_32 1)"
  by (simp add: data_arithmetic_binary_function_f_def heap_1_5_def heap_23_32_def mk_simps)

subsection \<open>Properties of where\<close>

text \<open>
  Claim C7, amended. The condition of \<^verbatim>\<open>data_arithmetic_where\<close> has to be of the kind
  \<^verbatim>\<open>unsigned char\<close> (\<^verbatim>\<open>GAL_DATA_TYPE_UCHAR\<close>; the kind \<^verbatim>\<open>GAL_DATA_TYPE_LOGICAL\<close>
  is refused like every other) and of exactly the dimensions of the output: otherwise the
  call stops with the kind error, respectively the size error, before any element loop,
  in the store it was called in, so that no element of any array has changed.
\<close>

theorem where_condition_checked:
  assumes cond: "objs h cond = Some cd" and out: "objs h out = Some od"
  shows "(type cd \<noteq> GAL_DATA_TYPE_UCHAR \<longrightarrow>
            data_arithmetic_where P h operator flags out cond iftrue
              = Inl (CondTypeError (type cd), h))
       \<and> (type cd = GAL_DATA_TYPE_UCHAR \<and> gal_data_dsize_is_different od cd \<longrightarrow>
            data_arithmetic_where P h operator flags out cond iftrue
              = Inl (ShapeMismatch, h))"
  by (simp add: data_arithmetic_where_def cond out)

theorem where_condition_checked_witness:
  "data_arithmetic_where int_platform
     (mk_heap [mk_data GAL_DATA_TYPE_UCHAR [3] [1, 1, 1],
               mk_data GAL_DATA_TYPE_LOGICAL [3] [1, 0, 1],
               mk_data GAL_DATA_TYPE_UCHAR [3] [9, 9, 9]])
     (GAL_DATA_OPERATOR_OTHER 0) {} 0 1 2
   = Inl (CondTypeError GAL_DATA_TYPE_LOGICAL,
          mk_heap [mk_data GAL_DATA_TYPE_UCHAR [3] [1, 1, 1],
                   mk_data GAL_DATA_TYPE_LOGICAL [3] [1, 0, 1],
                   mk_data GAL_DATA_TYPE_UCHAR [3] [9, 9, 9]])
   \<and> data_arithmetic_where int_platform
     (mk_heap [mk_data GAL_DATA_TYPE_UCHAR [3] [1, 1, 1],
               mk_data GAL_DATA_TYPE_UCHAR [1, 3] [1, 0, 1],
               mk_data GAL_DATA_TYPE_UCHAR [3] [9, 9, 9]])
     (GAL_DATA_OPERATOR_OTHER 0) {} 0 1 2
   = Inl (ShapeMismatch,
          mk_heap [mk_data GAL_DATA_TYPE_UCHAR [3] [1, 1, 1],
                   mk_data GAL_DATA_TYPE_UCHAR [1, 3] [1, 0, 1],
                   mk_data GAL_DATA_TYPE_UCHAR [3] [9, 9, 9]])"
  using where_condition_checked
      [of "mk_heap [mk_data GAL_DATA_TYPE_UCHAR [3] [1, 1, 1],
               mk_data GAL_DATA_TYPE_LOGICAL [3] [1, 0, 1],
               mk_data GAL_DATA_TYPE_UCHAR [3] [9, 9, 9]]" 1
          "mk_data GAL_DATA_TYPE_LOGICAL [3] [1, 0, 1]" 0
          "mk_data GAL_DATA_TYPE_UCHAR [3] [1, 1, 1]" int_platform
          "GAL_DATA_OPERATOR_OTHER 0" "{}" 2]
    where_condition_checked
      [of "mk_heap [mk_data GAL_DATA_TYPE_UCHAR [3] [1, 1, 1],
               mk_data GAL_DATA_TYPE_UCHAR [1, 3] [1, 0, 1],
               mk_data GAL_DATA_TYPE_UCHAR [3] [9, 9, 9]]" 1
          "mk_data GAL_DATA_TYPE_UCHAR [1, 3] [1, 0, 1]" 0
          "mk_data GAL_DATA_TYPE_UCHAR [3] [1, 1, 1]" int_platform
          "GAL_DATA_OPERATOR_OTHER 0" "{}" 2]
  by (simp add: objs_mk_heap type_mk_data gal_data_dsize_is_different_def)
     (simp add: mk_data_def)

lemmas where_unfold =
  data_arithmetic_where_def WHERE_OUT_SET_def DO_WHERE_OPERATION_def where_ctype_def
  where_rhs_def where_keep_def assign_def load_def store_def do_while.simps
  gal_data_dsize_is_different_def mk_heap_def mk_data_def int_platform_def c_convert_def
  int_convert_def gal_data_free_def

text \<open>
  As stated, with the boolean/logical kind for the condition, C7 fails: a condition of the
  kind \<^verbatim>\<open>unsigned char\<close>, which is not the logical kind, is accepted and the output
  [1, 1, 1] becomes [9, 1, 9].
\<close>

theorem where_uchar_condition_accepted:
  "(case data_arithmetic_where int_platform
          (mk_heap [mk_data GAL_DATA_TYPE_UCHAR [3] [1, 1, 1],
                    mk_data GAL_DATA_TYPE_UCHAR [3] [1, 0, 1],
                    mk_data GAL_DATA_TYPE_UCHAR [3] [9, 9, 9]])
          (GAL_DATA_OPERATOR_OTHER 0) {} 0 1 2 of
      Inl e \<Rightarrow> False
    | Inr h' \<Rightarrow> map_option array (objs h' 0) = Some [Some 9, Some 1, Some 9])
   \<and> type (mk_data GAL_DATA_TYPE_UCHAR [3] [1, 0, 1 :: int]) \<noteq> GAL_DATA_TYPE_LOGICAL"
  by (simp add: where_unfold)

text \<open>
  Claim C3 (every selected position of the output receives the value of \<open>iftrue\<close>) does
  not hold when the elements of the output are wider than one byte. The finish pointer of
  the loop is \<open>size\<close> bytes, not \<open>size\<close> elements, into the buffer: with three
  \<^verbatim>\<open>int\<close> elements the loop stops after the first one. For the output [1, 1, 1], the
  condition [1, 0, 1] and \<open>iftrue\<close> = [9, 9, 9] the result is [9, 1, 1], where the claim
  has [9, 1, 9].
\<close>

theorem where_int_output_stops_early:
  "(case data_arithmetic_where int_platform
          (mk_heap [mk_data GAL_DATA_TYPE_INT [3] [1, 1, 1],
                    mk_data GAL_DATA_TYPE_UCHAR [3] [1, 0, 1],
                    mk_data GAL_DATA_TYPE_INT [3] [9, 9, 9]])
          (GAL_DATA_OPERATOR_OTHER 0) {} 0 1 2 of
      Inl e \<Rightarrow> False
    | Inr h' \<Rightarrow> map_option array (objs h' 0) = Some [Some 9, Some 1, Some 1])"
  by (simp add: where_unfold)

end
